theory Spec2Isabelle
  imports Main "HOL-Library.Word" "HOL-Library.Sublist"
begin

section \<open>Common types\<close>

text \<open>
  Go's \<^verbatim>\<open>[]byte\<close> and \<^verbatim>\<open>string\<close> are both sequences of 8-bit values, and so is a
  HOL \<^typ>\<open>string\<close>; the conversions \<^verbatim>\<open>string(b)\<close> and \<^verbatim>\<open>[]byte(s)\<close> are the identity.
  \<^verbatim>\<open>uint\<close> is taken at 64 bits (the width on the 64-bit targets of the module), so that
  \<^verbatim>\<open>uint64(multihashCode)\<close> and \<^verbatim>\<open>uint(code)\<close> are the identity too.
\<close>

type_synonym bytes = string
type_synonym uint = "64 word"
type_synonym uint64 = "64 word"

text \<open>A Go \<^verbatim>\<open>error\<close> built by \<^verbatim>\<open>errors.New\<close> or \<^verbatim>\<open>fmt.Errorf\<close>: its text.\<close>

datatype error = Err string

fun message :: "error \<Rightarrow> string" where
  "message (Err m) = m"

text \<open>\<^verbatim>\<open>require.Contains(t, err.Error(), sub)\<close>: \<open>sub\<close> occurs in the text.\<close>

definition Contains :: "string \<Rightarrow> string \<Rightarrow> bool" where
  "Contains s sub = sublist sub s"

text \<open>
  A JSON value, as \<^verbatim>\<open>encoding/json\<close> reads and writes it; an object keeps its members
  in the order they were given.
\<close>

datatype json =
    JNull
  | JBool bool
  | JNumber int
  | JString string
  | JArray "json list"
  | JObject "(string \<times> json) list"

section \<open>Package docutil: multihash (hash.go)\<close>

text \<open>
  What \<^verbatim>\<open>multihash.Decode\<close> of go-multihash returns.
\<close>

record DecodedMultihash =
  Code :: uint64
  Name :: string
  Length :: int
  Digest :: bytes

text \<open>
  The functions the sources call and that are not part of them: \<^verbatim>\<open>crypto.SHA256\<close>
  (write all bytes, then \<^verbatim>\<open>Sum(nil)\<close>), \<^verbatim>\<open>multihash.Encode\<close>, \<^verbatim>\<open>multihash.Decode\<close> and
  \<^verbatim>\<open>multihash.ValidCode\<close> of go-multihash, docutil's own \<^verbatim>\<open>EncodeToString\<close> and
  \<^verbatim>\<open>DecodeString\<close> (encoder.go), and \<^verbatim>\<open>canonicalizer.MarshalCanonical\<close>, here on the JSON
  image of the value it is given. They are parameters of the model, with the signatures
  the callers use; nothing is assumed about them except where a theorem says so.
\<close>

record lib =
  SHA256_Sum :: "bytes \<Rightarrow> bytes"
  multihash_Encode :: "bytes \<Rightarrow> uint64 \<Rightarrow> error + bytes"
  multihash_Decode :: "bytes \<Rightarrow> error + DecodedMultihash"
  multihash_ValidCode :: "uint64 \<Rightarrow> bool"
  EncodeToString :: "bytes \<Rightarrow> string"
  DecodeString :: "string \<Rightarrow> error + bytes"
  MarshalCanonical :: "json \<Rightarrow> error + bytes"

definition sha2_256 :: uint where
  "sha2_256 = 18"

text \<open>The \<^verbatim>\<open>hash.Hash\<close> values that \<^verbatim>\<open>GetHash\<close> hands out.\<close>

datatype hash = SHA256

text \<open>
  \<^verbatim>\<open>h.Write(bytes)\<close> followed by \<^verbatim>\<open>h.Sum(nil)\<close>. The \<^verbatim>\<open>Write\<close> of a \<^verbatim>\<open>hash.Hash\<close> never
  returns an error (its interface says so), so the \<^verbatim>\<open>hashErr\<close> branch of
  \<^verbatim>\<open>ComputeMultihash\<close> has no counterpart.
\<close>

fun hash_Sum :: "lib \<Rightarrow> hash \<Rightarrow> bytes \<Rightarrow> bytes" where
  "hash_Sum L SHA256 bs = SHA256_Sum L bs"

definition GetHash :: "uint \<Rightarrow> error + hash" where
  "GetHash multihashCode =
     (if multihashCode = sha2_256 then Inr SHA256
      else Inl (Err ''algorithm not supported, unable to compute hash''))"

definition ComputeMultihash :: "lib \<Rightarrow> uint \<Rightarrow> bytes \<Rightarrow> error + bytes" where
  "ComputeMultihash L multihashCode bs =
     (case GetHash multihashCode of
        Inl err \<Rightarrow> Inl err
      | Inr h \<Rightarrow> multihash_Encode L (hash_Sum L h bs) multihashCode)"

definition GetMultihashCode :: "lib \<Rightarrow> string \<Rightarrow> error + uint64" where
  "GetMultihashCode L encodedMultihash =
     (case DecodeString L encodedMultihash of
        Inl err \<Rightarrow> Inl err
      | Inr multihashBytes \<Rightarrow>
          (case multihash_Decode L multihashBytes of
             Inl err \<Rightarrow> Inl err
           | Inr mh \<Rightarrow> Inr (Code mh)))"

definition IsSupportedMultihash :: "lib \<Rightarrow> string \<Rightarrow> bool" where
  "IsSupportedMultihash L encodedMultihash =
     (case GetMultihashCode L encodedMultihash of
        Inl err \<Rightarrow> False
      | Inr code \<Rightarrow> multihash_ValidCode L code)"

definition IsComputedUsingHashAlgorithm :: "lib \<Rightarrow> string \<Rightarrow> uint64 \<Rightarrow> bool" where
  "IsComputedUsingHashAlgorithm L encodedMultihash code =
     (case GetMultihashCode L encodedMultihash of
        Inl err \<Rightarrow> False
      | Inr mhCode \<Rightarrow> mhCode = code)"

text \<open>\<^verbatim>\<open>IsValidHash\<close> returns an \<^verbatim>\<open>error\<close>: \<open>None\<close> is \<^verbatim>\<open>nil\<close>.\<close>

definition IsValidHash :: "lib \<Rightarrow> string \<Rightarrow> string \<Rightarrow> error option" where
  "IsValidHash L encodedContent encodedMultihash =
     (case DecodeString L encodedContent of
        Inl err \<Rightarrow> Some err
      | Inr content \<Rightarrow>
          (case GetMultihashCode L encodedMultihash of
             Inl err \<Rightarrow> Some err
           | Inr code \<Rightarrow>
               (case ComputeMultihash L code content of
                  Inl err \<Rightarrow> Some err
                | Inr computedMultihash \<Rightarrow>
                    (if EncodeToString L computedMultihash \<noteq> encodedMultihash
                     then Some (Err ''supplied hash doesn't match original content'')
                     else None))))"

section \<open>Package model: requests (request.go)\<close>

text \<open>
  The structs of request.go that the update request uses. Field names carry a prefix
  for their struct (\<open>dm_\<close>, \<open>ur_\<close>, \<open>usd_\<close>), since several structs share names.
  \<^verbatim>\<open>patch.Patch\<close> is a Go map, which may be nil (\<open>None\<close>); \<^verbatim>\<open>*jws.JWK\<close> is a pointer to a
  key, here the key's JSON image, which may be nil as well.
\<close>

type_synonym OperationType = string
type_synonym Patch = "(string \<times> json) list option"
type_synonym JWK = json

record DeltaModel =
  dm_UpdateCommitment :: string
  dm_Patches :: "Patch list"

record UpdateRequest =
  ur_Operation :: OperationType
  ur_DidSuffix :: string
  ur_SignedData :: string
  ur_Delta :: string

record UpdateSignedDataModel =
  usd_UpdateKey :: "JWK option"
  usd_DeltaHash :: string

text \<open>
  Modelled from the spec: the constant \<^verbatim>\<open>model.OperationTypeUpdate\<close> is declared outside
  the sources; the wire format has \<^verbatim>\<open>type:"update"\<close>.
\<close>

definition model_OperationTypeUpdate :: OperationType where
  "model_OperationTypeUpdate = ''update''"

text \<open>
  What \<^verbatim>\<open>json.Marshal\<close> makes of each struct, by its field tags: members in the order of
  the fields, \<^verbatim>\<open>omitempty\<close> members left out when empty, a nil map or pointer as null.
\<close>

fun Patch_json :: "Patch \<Rightarrow> json" where
  "Patch_json None = JNull"
| "Patch_json (Some members) = JObject members"

fun JWK_json :: "JWK option \<Rightarrow> json" where
  "JWK_json None = JNull"
| "JWK_json (Some k) = k"

definition DeltaModel_json :: "DeltaModel \<Rightarrow> json" where
  "DeltaModel_json d =
     JObject
       ((if dm_UpdateCommitment d = [] then []
         else [(''update_commitment'', JString (dm_UpdateCommitment d))]) @
        (if dm_Patches d = [] then []
         else [(''patches'', JArray (map Patch_json (dm_Patches d)))]))"

definition UpdateRequest_json :: "UpdateRequest \<Rightarrow> json" where
  "UpdateRequest_json r =
     JObject
       [(''type'', JString (ur_Operation r)),
        (''did_suffix'', JString (ur_DidSuffix r)),
        (''signed_data'', JString (ur_SignedData r)),
        (''delta'', JString (ur_Delta r))]"

definition UpdateSignedDataModel_json :: "UpdateSignedDataModel \<Rightarrow> json" where
  "UpdateSignedDataModel_json m =
     JObject
       [(''update_key'', JWK_json (usd_UpdateKey m)),
        (''delta_hash'', JString (usd_DeltaHash m))]"

section \<open>Package helper: the update request (update.go)\<close>

text \<open>
  Modelled from the spec: the \<^verbatim>\<open>Signer\<close> interface is declared outside the sources. The
  spec gives it two operations, \<^verbatim>\<open>headers()\<close> with \<^verbatim>\<open>alg\<close> and possibly \<^verbatim>\<open>kid\<close>, and
  \<^verbatim>\<open>sign(payload_bytes)\<close>, which returns the compact JWS or an error. A signer is an
  object of the caller's; what it draws on beyond its argument (a source of randomness,
  a counter, a device) is its state \<open>'s\<close>, which \<open>Sign\<close> reads and returns.
\<close>

record 's Signer =
  Headers :: "string \<rightharpoonup> string"
  Sign :: "bytes \<Rightarrow> 's \<Rightarrow> (error + string) \<times> 's"

record 's UpdateRequestInfo =
  DidSuffix :: string
  Patch :: Patch
  UpdateCommitment :: string
  UpdateKey :: "JWK option"
  MultihashCode :: uint
  Signer :: "'s Signer option"

text \<open>
  Modelled from the spec: \<^verbatim>\<open>validateSigner\<close> is defined outside the sources. The spec
  requires the signer to be present and its headers to include a non-empty \<^verbatim>\<open>kid\<close>,
  rejected otherwise with "kid must be present in the protected header". The spec has
  no text for the absent signer; "missing signer" follows its other missing-field
  errors.
\<close>

definition validateSigner :: "'s Signer option \<Rightarrow> error option" where
  "validateSigner signer =
     (case signer of
        None \<Rightarrow> Some (Err ''missing signer'')
      | Some sg \<Rightarrow>
          (case Headers sg ''kid'' of
             None \<Rightarrow> Some (Err ''kid must be present in the protected header'')
           | Some kid \<Rightarrow>
               (if kid = [] then Some (Err ''kid must be present in the protected header'')
                else None)))"

text \<open>
  Modelled from the spec: \<^verbatim>\<open>getDeltaBytes\<close> is defined outside the sources. The spec
  builds the delta from the update commitment and the patches and canonicalizes it.
\<close>

definition getDeltaBytes :: "lib \<Rightarrow> string \<Rightarrow> Patch list \<Rightarrow> error + bytes" where
  "getDeltaBytes L ur patches =
     MarshalCanonical L
       (DeltaModel_json \<lparr>dm_UpdateCommitment = ur, dm_Patches = patches\<rparr>)"

text \<open>
  Modelled from the spec: \<^verbatim>\<open>getEncodedMultihash\<close> is defined outside the sources. The
  spec's delta hash is the base-encoded multihash of the canonical delta.
\<close>

definition getEncodedMultihash :: "lib \<Rightarrow> uint \<Rightarrow> bytes \<Rightarrow> error + string" where
  "getEncodedMultihash L mhCode bs =
     (case ComputeMultihash L mhCode bs of
        Inl err \<Rightarrow> Inl err
      | Inr h \<Rightarrow> Inr (EncodeToString L h))"

text \<open>
  Modelled from the spec: \<^verbatim>\<open>signutil.SignModel\<close> is defined outside the sources. The
  payload of the JWS is the canonical JSON of the model, and the signer signs it. A nil
  signer does not get here (\<^verbatim>\<open>validateSigner\<close> has rejected it); the branch stands for
  the call on a nil interface.
\<close>

definition SignModel :: "lib \<Rightarrow> json \<Rightarrow> 's Signer option \<Rightarrow> 's \<Rightarrow> (error + string) \<times> 's" where
  "SignModel L model signer s =
     (case MarshalCanonical L model of
        Inl err \<Rightarrow> (Inl err, s)
      | Inr signedDataBytes \<Rightarrow>
          (case signer of
             None \<Rightarrow> (Inl (Err ''missing signer''), s)
           | Some sg \<Rightarrow> Sign sg signedDataBytes s))"

definition validateUpdateRequest :: "'s UpdateRequestInfo \<Rightarrow> error option" where
  "validateUpdateRequest info =
     (if DidSuffix info = [] then Some (Err ''missing did unique suffix'')
      else if Patch info = None then Some (Err ''missing update information'')
      else validateSigner (Signer info))"

text \<open>
  \<^verbatim>\<open>NewUpdateRequest\<close> returns the request bytes or the error, and the signer's state
  after the call.
\<close>

definition NewUpdateRequest :: "lib \<Rightarrow> 's UpdateRequestInfo \<Rightarrow> 's \<Rightarrow> (error + bytes) \<times> 's" where
  "NewUpdateRequest L info s =
     (case validateUpdateRequest info of
        Some err \<Rightarrow> (Inl err, s)
      | None \<Rightarrow>
          (case getDeltaBytes L (UpdateCommitment info) [Patch info] of
             Inl err \<Rightarrow> (Inl err, s)
           | Inr deltaBytes \<Rightarrow>
               (case getEncodedMultihash L (MultihashCode info) deltaBytes of
                  Inl err \<Rightarrow> (Inl err, s)
                | Inr mhDelta \<Rightarrow>
                    (case SignModel L
                            (UpdateSignedDataModel_json
                               \<lparr>usd_UpdateKey = UpdateKey info, usd_DeltaHash = mhDelta\<rparr>)
                            (Signer info) s of
                       (Inl err, s') \<Rightarrow> (Inl err, s')
                     | (Inr jws, s') \<Rightarrow>
                         (MarshalCanonical L
                            (UpdateRequest_json
                               \<lparr>ur_Operation = model_OperationTypeUpdate,
                                ur_DidSuffix = DidSuffix info,
                                ur_SignedData = jws,
                                ur_Delta = EncodeToString L deltaBytes\<rparr>), s')))))"

text \<open>
  The request bytes a caller holds after the call: Go returns a nil slice beside an
  error.
\<close>

fun request_bytes :: "error + bytes \<Rightarrow> bytes" where
  "request_bytes (Inl err) = []"
| "request_bytes (Inr request) = request"

section \<open>Package dochandler: the payload of a request\<close>











definition OperationTypeDeactivate :: OperationType where
  "OperationTypeDeactivate = ''deactivate''"









section \<open>Package batch: anchored operations (operation.go)\<close>

text \<open>The fields of \<^verbatim>\<open>AnchoredOperation\<close>, with the prefix \<open>ao_\<close>.\<close>

record AnchoredOperation =
  ao_Type :: OperationType
  ao_UniqueSuffix :: string
  ao_SignedData :: string
  ao_EncodedDelta :: string
  ao_EncodedSuffixData :: string
  ao_TransactionTime :: uint64
  ao_TransactionNumber :: uint64
  ao_OperationIndex :: uint

section \<open>Package observer: the transaction processor\<close>

text \<open>
  Modelled from the spec: the observer and its transaction processor (observer.go,
  txnprocessor.go) and the transaction type \<^verbatim>\<open>txn.SidetreeTxn\<close> are not part of the
  sources; the sources hold their tests and the mocks of their collaborators. The
  definitions of this section follow the spec's sections 4.5, 6 and 7 and scenarios S3
  to S5, with the names the tests use.

  A transaction, as the ledger collaborator of the spec delivers it.
\<close>

record SidetreeTxn =
  txn_Namespace :: string
  txn_TransactionTime :: uint64
  txn_TransactionNumber :: uint64
  txn_AnchorString :: string
  txn_ProtocolGenesisTime :: uint64

text \<open>
  Modelled from the spec: the collaborators of the processor. An operation store
  answers \<open>Put\<close> and \<open>Get\<close>; the store provider gives the store of a namespace; the
  transaction-operation provider (C4 of the spec) gives the operations of a transaction
  or one error for the whole transaction; \<open>IsValidOperation\<close> is the validation of an
  operation by the parser (C3), step 2 of the consumer loop.
\<close>

record OperationStore =
  Put :: "AnchoredOperation list \<Rightarrow> error option"
  Get :: "string \<Rightarrow> error + AnchoredOperation list"

record Providers =
  GetTxnOperations :: "SidetreeTxn \<Rightarrow> error + AnchoredOperation list"
  ForNamespace :: "string \<Rightarrow> error + OperationStore"
  IsValidOperation :: "AnchoredOperation \<Rightarrow> bool"

text \<open>
  Modelled from the spec: what the scenarios S3 to S5 observe of the processor, in
  order: a call of \<open>put\<close> on the store of a namespace with the operations handed over,
  and the record of a failed transaction.
\<close>

datatype event =
    PutCalled string "AnchoredOperation list"
  | TxnFailed string error

text \<open>
  Modelled from the spec: an aggregate error, the context followed by the cause. The
  tests look for the context in the text of the error.
\<close>

definition aggregate :: "string \<Rightarrow> error \<Rightarrow> error" where
  "aggregate context err = Err (context @ '': '' @ message err)"

text \<open>
  Modelled from the spec: \<^verbatim>\<open>updateAnchoredOperation\<close> stamps an operation with the
  transaction's time and number and with its index (scenario S3; the test
  \<^verbatim>\<open>TestUpdateOperation\<close> calls it with these three arguments).
\<close>

definition updateAnchoredOperation ::
    "AnchoredOperation \<Rightarrow> uint \<Rightarrow> SidetreeTxn \<Rightarrow> AnchoredOperation" where
  "updateAnchoredOperation op index sidetreeTxn =
     op\<lparr>ao_TransactionTime := txn_TransactionTime sidetreeTxn,
        ao_TransactionNumber := txn_TransactionNumber sidetreeTxn,
        ao_OperationIndex := index\<rparr>"

text \<open>
  Modelled from the spec: step 3 of the consumer loop, "deduplicate within the batch by
  \<^verbatim>\<open>unique_suffix\<close>, keeping the first occurrence"; later occurrences are dropped.
  \<open>seen\<close> holds the suffixes already kept; an operation keeps the index of its position
  in the batch.
\<close>

fun deduplicate ::
    "string set \<Rightarrow> nat \<Rightarrow> AnchoredOperation list \<Rightarrow> SidetreeTxn \<Rightarrow> AnchoredOperation list" where
  "deduplicate seen index [] sidetreeTxn = []"
| "deduplicate seen index (op # txnOps) sidetreeTxn =
     (if ao_UniqueSuffix op \<in> seen then deduplicate seen (Suc index) txnOps sidetreeTxn
      else updateAnchoredOperation op (of_nat index) sidetreeTxn
             # deduplicate (insert (ao_UniqueSuffix op) seen) (Suc index) txnOps sidetreeTxn)"

text \<open>
  The operation \<open>k\<close> is what the batch's operation at position \<open>i\<close> becomes when it is
  kept: its suffix is not among those seen before the batch, no earlier operation of
  the batch has it, and it is stamped with the transaction and its index.
\<close>

definition first_kept ::
    "AnchoredOperation \<Rightarrow> string set \<Rightarrow> nat \<Rightarrow> AnchoredOperation list \<Rightarrow> SidetreeTxn \<Rightarrow> nat \<Rightarrow> bool" where
  "first_kept k seen index ops t i \<longleftrightarrow>
     k = updateAnchoredOperation (ops ! i) (of_nat (index + i)) t \<and>
     ao_UniqueSuffix (ops ! i) \<notin> seen \<and>
     (\<forall>j < i. ao_UniqueSuffix (ops ! j) \<noteq> ao_UniqueSuffix (ops ! i))"

text \<open>
  Modelled from the spec: steps 3 and 4 of the consumer loop for the operations of one
  transaction: deduplicate, obtain the store of the transaction's namespace, and \<open>put\<close>
  the operations kept. An error of the store provider is returned as it is (the test
  finds its text in the result); an error of \<open>put\<close> becomes
  "failed to store operation from anchor string".
\<close>

definition processTxnOperations ::
    "Providers \<Rightarrow> AnchoredOperation list \<Rightarrow> SidetreeTxn \<Rightarrow> error option \<times> event list" where
  "processTxnOperations P txnOps sidetreeTxn =
     (let ops = deduplicate {} 0 txnOps sidetreeTxn
      in case ForNamespace P (txn_Namespace sidetreeTxn) of
           Inl err \<Rightarrow> (Some err, [])
         | Inr opStore \<Rightarrow>
             (case Put opStore ops of
                Some err \<Rightarrow>
                  (Some (aggregate ''failed to store operation from anchor string'' err),
                   [PutCalled (txn_Namespace sidetreeTxn) ops])
              | None \<Rightarrow> (None, [PutCalled (txn_Namespace sidetreeTxn) ops])))"

text \<open>
  Modelled from the spec: the processing of one transaction. Step 1 obtains the
  operations; an error there rejects the whole transaction with the aggregate error
  "failed to retrieve operations for anchor string". Step 2 discards the operations
  that do not validate. Steps 3 and 4 are \<open>processTxnOperations\<close>.
\<close>

definition Process :: "Providers \<Rightarrow> SidetreeTxn \<Rightarrow> error option \<times> event list" where
  "Process P sidetreeTxn =
     (case GetTxnOperations P sidetreeTxn of
        Inl err \<Rightarrow>
          (Some (aggregate ''failed to retrieve operations for anchor string'' err), [])
      | Inr txnOps \<Rightarrow>
          processTxnOperations P (filter (IsValidOperation P) txnOps) sidetreeTxn)"

text \<open>
  Modelled from the spec: the consumer. It takes the transactions of a ledger message
  one after the other; a transaction that fails is recorded and skipped. \<open>listen\<close> runs
  over the messages the ledger sends until it closes the channel, which ends the
  consumer. (The consumer is a single sequential task; starting and stopping it are
  not modelled.)
\<close>

fun process_txns :: "Providers \<Rightarrow> SidetreeTxn list \<Rightarrow> event list" where
  "process_txns P [] = []"
| "process_txns P (sidetreeTxn # txns) =
     (case Process P sidetreeTxn of
        (Some err, events) \<Rightarrow>
          events @ TxnFailed (txn_AnchorString sidetreeTxn) err # process_txns P txns
      | (None, events) \<Rightarrow> events @ process_txns P txns)"

fun listen :: "Providers \<Rightarrow> SidetreeTxn list list \<Rightarrow> event list" where
  "listen P [] = []"
| "listen P (txns # messages) = process_txns P txns @ listen P messages"

section \<open>A library instance to run the definitions on\<close>

text \<open>
  The concrete inputs below need concrete collaborators. The encoding is base64 with
  the URL-safe alphabet and no padding; a multihash is the unsigned varint of the code,
  the unsigned varint of the digest length, and the digest. The digest function is a
  32-byte stand-in (SHA-256 itself is not modelled): the first 32 bytes of the input
  followed by zeros.
\<close>

definition b64_alphabet :: string where
  "b64_alphabet = ''ABCDEFGHIJKLMNOPQRSTUVWXYZabcdefghijklmnopqrstuvwxyz0123456789-_''"

definition b64_char :: "nat \<Rightarrow> char" where
  "b64_char n = b64_alphabet ! (n mod 64)"

fun index_of :: "char \<Rightarrow> string \<Rightarrow> nat option" where
  "index_of c [] = None"
| "index_of c (x # xs) =
     (if c = x then Some 0
      else case index_of c xs of None \<Rightarrow> None | Some i \<Rightarrow> Some (Suc i))"

definition b64_value :: "char \<Rightarrow> nat option" where
  "b64_value c = index_of c b64_alphabet"

fun b64url_encode :: "bytes \<Rightarrow> string" where
  "b64url_encode (a # b # c # rest) =
     (let n = of_char a * 65536 + of_char b * 256 + of_char c
      in b64_char (n div 262144) # b64_char (n div 4096) # b64_char (n div 64)
           # b64_char n # b64url_encode rest)"
| "b64url_encode [a, b] =
     (let n = of_char a * 1024 + of_char b * 4
      in [b64_char (n div 4096), b64_char (n div 64), b64_char n])"
| "b64url_encode [a] =
     (let n = of_char a * 16 in [b64_char (n div 64), b64_char n])"
| "b64url_encode [] = []"

definition illegal_base64 :: error where
  "illegal_base64 = Err ''illegal base64 data''"

fun b64url_decode :: "string \<Rightarrow> error + bytes" where
  "b64url_decode (p # q # r # s # rest) =
     (case (b64_value p, b64_value q, b64_value r, b64_value s) of
        (Some i, Some j, Some k, Some l) \<Rightarrow>
          (case b64url_decode rest of
             Inl err \<Rightarrow> Inl err
           | Inr bs \<Rightarrow>
               (let n = i * 262144 + j * 4096 + k * 64 + l
                in Inr (char_of (n div 65536) # char_of (n div 256) # char_of n # bs)))
      | _ \<Rightarrow> Inl illegal_base64)"
| "b64url_decode [p, q, r] =
     (case (b64_value p, b64_value q, b64_value r) of
        (Some i, Some j, Some k) \<Rightarrow>
          (let n = i * 4096 + j * 64 + k
           in Inr [char_of (n div 1024), char_of (n div 4)])
      | _ \<Rightarrow> Inl illegal_base64)"
| "b64url_decode [p, q] =
     (case (b64_value p, b64_value q) of
        (Some i, Some j) \<Rightarrow> Inr [char_of ((i * 64 + j) div 16)]
      | _ \<Rightarrow> Inl illegal_base64)"
| "b64url_decode [p] = Inl illegal_base64"
| "b64url_decode [] = Inr []"

fun uvarint_put :: "nat \<Rightarrow> bytes" where
  "uvarint_put n =
     (if n < 128 then [char_of n] else char_of (n mod 128 + 128) # uvarint_put (n div 128))"

declare uvarint_put.simps [simp del]

fun uvarint_get :: "bytes \<Rightarrow> (nat \<times> bytes) option" where
  "uvarint_get [] = None"
| "uvarint_get (c # cs) =
     (if (of_char c :: nat) < 128 then Some (of_char c, cs)
      else case uvarint_get cs of
             None \<Rightarrow> None
           | Some (n, rest) \<Rightarrow> Some (of_char c - 128 + 128 * n, rest))"

definition mh_encode :: "bytes \<Rightarrow> uint64 \<Rightarrow> error + bytes" where
  "mh_encode digest code = Inr (uvarint_put (unat code) @ uvarint_put (length digest) @ digest)"

definition mh_decode :: "bytes \<Rightarrow> error + DecodedMultihash" where
  "mh_decode buf =
     (if length buf < 2 then Inl (Err ''multihash too short. must be >= 2 bytes'')
      else case uvarint_get buf of
        None \<Rightarrow> Inl (Err ''varint not terminated'')
      | Some (code, buf1) \<Rightarrow>
          (case uvarint_get buf1 of
             None \<Rightarrow> Inl (Err ''varint not terminated'')
           | Some (len, digest) \<Rightarrow>
               (if length digest \<noteq> len then Inl (Err ''multihash length inconsistent'')
                else Inr \<lparr>Code = of_nat code, Name = [], Length = int len,
                          Digest = digest\<rparr>)))"

definition mh_valid_code :: "uint64 \<Rightarrow> bool" where
  "mh_valid_code code = (code \<in> set [0x00, 0x11, 0x12, 0x13, 0x14, 0x15, 0x16, 0x17])"

definition pad_digest :: "bytes \<Rightarrow> bytes" where
  "pad_digest bs = take 32 (bs @ replicate 32 (CHR 0x00))"

text \<open>
  Canonical JSON for the instance: members sorted by key (bytewise), no whitespace,
  strings in double quotes with the quote and the backslash escaped, integers in
  decimal.
\<close>

fun str_le :: "string \<Rightarrow> string \<Rightarrow> bool" where
  "str_le [] ys = True"
| "str_le (x # xs) [] = False"
| "str_le (x # xs) (y # ys) =
     (if x = y then str_le xs ys else (of_char x :: nat) < of_char y)"

fun insert_field :: "string \<times> 'a \<Rightarrow> (string \<times> 'a) list \<Rightarrow> (string \<times> 'a) list" where
  "insert_field kv [] = [kv]"
| "insert_field kv (x # xs) =
     (if str_le (fst kv) (fst x) then kv # x # xs else x # insert_field kv xs)"

definition sort_fields :: "(string \<times> 'a) list \<Rightarrow> (string \<times> 'a) list" where
  "sort_fields kvs = foldr insert_field kvs []"

fun escape_char :: "char \<Rightarrow> string" where
  "escape_char c =
     (if c = CHR 0x22 then [CHR 0x5C, CHR 0x22]
      else if c = CHR 0x5C then [CHR 0x5C, CHR 0x5C]
      else [c])"

definition quote_string :: "string \<Rightarrow> string" where
  "quote_string s = CHR 0x22 # concat (map escape_char s) @ [CHR 0x22]"

fun decimal :: "nat \<Rightarrow> string" where
  "decimal n =
     (if n < 10 then [char_of (48 + n)]
      else decimal (n div 10) @ [char_of (48 + n mod 10)])"

declare decimal.simps [simp del]

fun join_comma :: "string list \<Rightarrow> string" where
  "join_comma [] = []"
| "join_comma [x] = x"
| "join_comma (x # y # ys) = x @ '','' @ join_comma (y # ys)"

fun canonical_json :: "json \<Rightarrow> string" where
  "canonical_json JNull = ''null''"
| "canonical_json (JBool b) = (if b then ''true'' else ''false'')"
| "canonical_json (JNumber i) =
     (if i < 0 then ''-'' @ decimal (nat (- i)) else decimal (nat i))"
| "canonical_json (JString s) = quote_string s"
| "canonical_json (JArray xs) = ''['' @ join_comma (map canonical_json xs) @ '']''"
| "canonical_json (JObject kvs) =
     ''{'' @
     join_comma
       (map (\<lambda>kv. quote_string (fst kv) @ '':'' @ snd kv)
          (sort_fields (map (\<lambda>kv. (fst kv, canonical_json (snd kv))) kvs))) @
     ''}''"

definition ref_lib :: lib where
  "ref_lib = \<lparr>SHA256_Sum = pad_digest, multihash_Encode = mh_encode,
              multihash_Decode = mh_decode, multihash_ValidCode = mh_valid_code,
              EncodeToString = b64url_encode, DecodeString = b64url_decode,
              MarshalCanonical = (\<lambda>v. Inr (canonical_json v))\<rparr>"

text \<open>
  The encoders are unfolded only where a proof runs them on a concrete input.
\<close>

declare b64url_encode.simps [simp del]
declare b64url_decode.simps [simp del]
declare canonical_json.simps [simp del]

text \<open>
  Signers for the instance. \<open>compact_jws\<close> is the compact serialization: the base
  encodings of the protected header, the payload and the signature, joined by dots.
  \<open>mock_signer\<close> is the signer of the tests (\<^verbatim>\<open>NewMockSigner(err)\<close>): it returns its error
  if it has one, and signs with the fixed bytes "signature" otherwise; it leaves its
  state as it was. \<open>empty_headers_signer\<close> is the signer of the test whose headers are an
  empty map.
\<close>

definition compact_jws :: "(string \<times> string) list \<Rightarrow> bytes \<Rightarrow> bytes \<Rightarrow> string" where
  "compact_jws headers payload signature =
     b64url_encode (canonical_json (JObject (map (\<lambda>kv. (fst kv, JString (snd kv))) headers)))
       @ ''.'' @ b64url_encode payload @ ''.'' @ b64url_encode signature"

definition mock_signer :: "error option \<Rightarrow> 's Signer" where
  "mock_signer err =
     \<lparr>Headers = map_of [(''alg'', ''alg''), (''kid'', ''kid'')],
      Sign = (\<lambda>payload s.
        case err of
          Some e \<Rightarrow> (Inl e, s)
        | None \<Rightarrow>
            (Inr (compact_jws [(''alg'', ''alg''), (''kid'', ''kid'')] payload ''signature''),
             s))\<rparr>"

definition empty_headers_signer :: "'s Signer" where
  "empty_headers_signer =
     \<lparr>Headers = Map.empty, Sign = (\<lambda>payload s. (Inr ''unused'', s))\<rparr>"

text \<open>The request of the tests: suffix "whatever", one JSON patch, multihash code 18.\<close>

definition test_patch_members :: "(string \<times> json) list" where
  "test_patch_members =
     [(''action'', JString ''ietf-json-patch''),
      (''patches'',
       JArray [JObject [(''op'', JString ''replace''), (''path'', JString ''/name''),
                        (''value'', JString ''Jane'')]])]"

definition test_patch :: Patch where
  "test_patch = Some test_patch_members"

definition test_info :: "'s Signer option \<Rightarrow> 's UpdateRequestInfo" where
  "test_info signer =
     \<lparr>DidSuffix = ''whatever'', Patch = test_patch, UpdateCommitment = [],
      UpdateKey = None, MultihashCode = 18, Signer = signer\<rparr>"

text \<open>
  The requests of the failing tests: the zero value \<^verbatim>\<open>&UpdateRequestInfo{}\<close>, and the one
  with only the suffix set.
\<close>

definition zero_info :: "'s UpdateRequestInfo" where
  "zero_info =
     \<lparr>DidSuffix = [], Patch = None, UpdateCommitment = [], UpdateKey = None,
      MultihashCode = 0, Signer = None\<rparr>"

definition suffix_only_info :: "'s UpdateRequestInfo" where
  "suffix_only_info =
     \<lparr>DidSuffix = ''whatever'', Patch = None, UpdateCommitment = [], UpdateKey = None,
      MultihashCode = 0, Signer = None\<rparr>"

text \<open>
  The intermediate values of \<^verbatim>\<open>NewUpdateRequest\<close> on the request of the tests, under this
  instance: the canonical delta, its multihash, the payload handed to the signer, and
  the request object for a given JWS.
\<close>

definition test_delta_bytes :: bytes where
  "test_delta_bytes =
     canonical_json (DeltaModel_json \<lparr>dm_UpdateCommitment = [], dm_Patches = [test_patch]\<rparr>)"

definition test_delta_mh :: bytes where
  "test_delta_mh =
     uvarint_put 18 @ uvarint_put (length (pad_digest test_delta_bytes))
       @ pad_digest test_delta_bytes"

definition test_payload :: bytes where
  "test_payload =
     canonical_json
       (UpdateSignedDataModel_json
          \<lparr>usd_UpdateKey = None, usd_DeltaHash = b64url_encode test_delta_mh\<rparr>)"

definition test_request :: "string \<Rightarrow> json" where
  "test_request jws =
     JObject [(''type'', JString ''update''), (''did_suffix'', JString ''whatever''),
              (''signed_data'', JString jws),
              (''delta'', JString (b64url_encode test_delta_bytes))]"

text \<open>The multihashes of the tests' contents under this instance, and their encodings.\<close>

definition mh_test :: bytes where
  "mh_test = CHR 0x12 # CHR 0x20 # pad_digest ''test''"

definition mh_content :: bytes where
  "mh_content = CHR 0x12 # CHR 0x20 # pad_digest ''content''"

text \<open>A multihash of the same digest that carries the code 19 instead of 18.\<close>

definition mh_test_19 :: bytes where
  "mh_test_19 = CHR 0x13 # CHR 0x20 # pad_digest ''test''"

definition key_test :: string where
  "key_test = ''EiB0ZXN0AAAAAAAAAAAAAAAAAAAAAAAAAAAAAAAAAAAAAA''"

definition key_content :: string where
  "key_content = ''EiBjb250ZW50AAAAAAAAAAAAAAAAAAAAAAAAAAAAAAAAAA''"










text \<open>
  The collaborators of the observer's tests: the operation \<^verbatim>\<open>{UniqueSuffix: "abc"}\<close>, a
  store whose \<open>put\<close> accepts, a store provider that returns it, a provider of
  transaction operations that returns the one operation or fails with a read error, and
  no operation rejected by validation.
\<close>

definition abc_operation :: AnchoredOperation where
  "abc_operation =
     \<lparr>ao_Type = [], ao_UniqueSuffix = ''abc'', ao_SignedData = [], ao_EncodedDelta = [],
      ao_EncodedSuffixData = [], ao_TransactionTime = 0, ao_TransactionNumber = 0,
      ao_OperationIndex = 0\<rparr>"

definition mock_store :: OperationStore where
  "mock_store = \<lparr>Put = (\<lambda>ops. None), Get = (\<lambda>suffix. Inr [])\<rparr>"

definition mock_providers :: Providers where
  "mock_providers =
     \<lparr>GetTxnOperations = (\<lambda>t. Inr [abc_operation]),
      ForNamespace = (\<lambda>ns. Inr mock_store),
      IsValidOperation = (\<lambda>op. True)\<rparr>"

definition read_error_providers :: Providers where
  "read_error_providers =
     \<lparr>GetTxnOperations = (\<lambda>t.
        if txn_AnchorString t = ''1.address'' then Inl (Err ''read error'')
        else Inr [abc_operation]),
      ForNamespace = (\<lambda>ns. Inr mock_store),
      IsValidOperation = (\<lambda>op. True)\<rparr>"

definition test_txn :: "string \<Rightarrow> SidetreeTxn" where
  "test_txn anchor =
     \<lparr>txn_Namespace = ''did:sidetree'', txn_TransactionTime = 20, txn_TransactionNumber = 2,
      txn_AnchorString = anchor, txn_ProtocolGenesisTime = 0\<rparr>"

section \<open>The library instance reads back what it writes\<close>

lemma index_of_nth: "distinct xs \<Longrightarrow> i < length xs \<Longrightarrow> index_of (xs ! i) xs = Some i"
proof (induction xs arbitrary: i)
  case Nil
  then show ?case by simp
next
  case (Cons x xs)
  then show ?case by (cases i) auto
qed

lemma b64_alphabet_distinct: "distinct b64_alphabet" "length b64_alphabet = 64"
  by (simp_all add: b64_alphabet_def)

lemma b64_value_char: "b64_value (b64_char m) = Some (m mod 64)"
  unfolding b64_value_def b64_char_def
  by (rule index_of_nth) (simp_all add: b64_alphabet_distinct)

lemma char_of_nat_eq: "n mod 256 = of_char c \<Longrightarrow> char_of (n::nat) = c"
  by (simp add: char_of_eq_iff take_bit_eq_mod)

lemma sextets:
  fixes n :: nat
  shows "n div 262144 * 262144 + (n div 4096) mod 64 * 4096 + (n div 64) mod 64 * 64 + n mod 64 = n"
proof -
  have 1: "n div 64 div 64 = n div 4096" by (simp add: div_mult2_eq [symmetric])
  have 2: "n div 4096 div 64 = n div 262144" by (simp add: div_mult2_eq [symmetric])
  have a: "n = n div 64 * 64 + n mod 64" by simp
  have b: "n div 64 = n div 4096 * 64 + (n div 64) mod 64"
    using div_mult_mod_eq [of "n div 64" 64] 1 by simp
  have c: "n div 4096 = n div 262144 * 64 + (n div 4096) mod 64"
    using div_mult_mod_eq [of "n div 4096" 64] 2 by simp
  show ?thesis using a b c by linarith
qed

lemma div_eqI: "q * d \<le> n \<Longrightarrow> n < q * d + d \<Longrightarrow> n div d = (q::nat)"
  by (rule div_nat_eqI) (simp_all add: mult.commute)

lemma three_bytes:
  fixes a b c :: nat
  assumes "a < 256" "b < 256" "c < 256"
  shows "(a * 65536 + b * 256 + c) div 262144 < 64"
    and "(a * 65536 + b * 256 + c) div 65536 = a"
    and "(a * 65536 + b * 256 + c) div 256 mod 256 = b"
    and "(a * 65536 + b * 256 + c) mod 256 = c"
proof -
  let ?n = "a * 65536 + b * 256 + c"
  show "?n div 262144 < 64" using assms by (simp add: less_mult_imp_div_less)
  show "?n div 65536 = a" using assms by (intro div_eqI) simp_all
  have d: "?n div 256 = a * 256 + b" using assms by (intro div_eqI) simp_all
  have "(a * 256 + b) div 256 = a" using assms by (intro div_eqI) simp_all
  then show "?n div 256 mod 256 = b"
    unfolding d using minus_mult_div_eq_mod [of "a * 256 + b" 256] by simp
  show "?n mod 256 = c"
    using d minus_mult_div_eq_mod [of ?n 256] by simp
qed


lemma two_bytes:
  fixes a b :: nat
  assumes "a < 256" "b < 256"
  shows "(a * 1024 + b * 4) div 4096 < 64"
    and "(a * 1024 + b * 4) div 1024 = a"
    and "(a * 1024 + b * 4) div 4 mod 256 = b"
proof -
  let ?n = "a * 1024 + b * 4"
  show "?n div 4096 < 64" using assms by (simp add: less_mult_imp_div_less)
  show "?n div 1024 = a" using assms by (intro div_eqI) simp_all
  have d: "?n div 4 = a * 256 + b" using assms by (intro div_eqI) simp_all
  have "(a * 256 + b) div 256 = a" using assms by (intro div_eqI) simp_all
  then show "?n div 4 mod 256 = b"
    unfolding d using minus_mult_div_eq_mod [of "a * 256 + b" 256] by simp
qed

lemma sextets3:
  fixes n :: nat
  shows "n div 4096 * 4096 + (n div 64) mod 64 * 64 + n mod 64 = n"
proof -
  have 1: "n div 64 div 64 = n div 4096" by (simp add: div_mult2_eq [symmetric])
  have a: "n = n div 64 * 64 + n mod 64" by simp
  have b: "n div 64 = n div 4096 * 64 + (n div 64) mod 64"
    using div_mult_mod_eq [of "n div 64" 64] 1 by simp
  show ?thesis using a b by linarith
qed

lemma b64url_roundtrip: "b64url_decode (b64url_encode bs) = Inr bs"
proof (induction bs rule: b64url_encode.induct)
  case (1 a b c rest)
  let ?n = "of_char a * 65536 + of_char b * 256 + of_char c :: nat"
  have lt: "(of_char a :: nat) < 256" "(of_char b :: nat) < 256" "(of_char c :: nat) < 256"
    by simp_all
  note tb = three_bytes [OF lt]
  have small: "?n div 262144 mod 64 = ?n div 262144"
    using tb(1) by simp
  note same = sextets [of ?n]
  have chars: "char_of (?n div 65536) = a" "char_of (?n div 256) = b" "char_of ?n = c"
    using tb by (simp_all add: char_of_nat_eq)
  show ?case
    using "1.IH" [OF refl] chars
    by (simp add: b64url_encode.simps b64url_decode.simps b64_value_char Let_def small same
        del: mod_less)
next
  case (2 a b)
  let ?n = "of_char a * 1024 + of_char b * 4 :: nat"
  have lt: "(of_char a :: nat) < 256" "(of_char b :: nat) < 256"
    by simp_all
  note tb = two_bytes [OF lt]
  have small: "?n div 4096 mod 64 = ?n div 4096"
    using tb(1) by simp
  note same = sextets3 [of ?n]
  have chars: "char_of (?n div 1024) = a" "char_of (?n div 4) = b"
    using tb by (simp_all add: char_of_nat_eq)
  show ?case
    using chars
    by (simp add: b64url_encode.simps b64url_decode.simps b64_value_char Let_def small same)
next
  case (3 a)
  define n :: nat where "n = of_char a * 16"
  have enc: "b64url_encode [a] = [b64_char (n div 64), b64_char n]"
    by (simp add: b64url_encode.simps n_def Let_def)
  have dec: "b64url_decode [b64_char (n div 64), b64_char n] =
      Inr [char_of ((n div 64 mod 64 * 64 + n mod 64) div 16)]"
    by (simp add: b64url_decode.simps b64_value_char)
  have "n div 64 < 64"
    unfolding n_def using nat_of_char_less_256 [of a] by (simp add: less_mult_imp_div_less)
  then have "n div 64 mod 64 * 64 + n mod 64 = n"
    by simp
  moreover have "char_of (n div 16) = a"
    by (simp add: n_def)
  ultimately show ?case
    by (simp add: enc dec)
next
  case 4
  show ?case by (simp add: b64url_encode.simps b64url_decode.simps)
qed


lemma uvarint_roundtrip: "uvarint_get (uvarint_put n @ rest) = Some (n, rest)"
proof (induction n rule: uvarint_put.induct)
  case (1 n)
  show ?case
  proof (cases "n < 128")
    case True
    then show ?thesis by (subst uvarint_put.simps) simp
  next
    case False
    have hi: "(n mod 128 + 128) mod 256 = n mod 128 + 128"
      by (rule mod_less) (simp add: less_le_trans [OF mod_less_divisor])
    have "n mod 128 + 128 * (n div 128) = n" by simp
    with False "1.IH" hi show ?thesis
      by (subst uvarint_put.simps) simp
  qed
qed

lemma uvarint_put_nonempty: "uvarint_put n \<noteq> []"
  by (subst uvarint_put.simps) simp

lemma mh_roundtrip:
  "mh_decode the_mh =
     Inr \<lparr>Code = code, Name = [], Length = int (length digest), Digest = digest\<rparr>"
  if "mh_encode digest code = Inr the_mh"
proof -
  have mh: "the_mh = uvarint_put (unat code) @ uvarint_put (length digest) @ digest"
    using that by (simp add: mh_encode_def)
  have len: "\<not> length the_mh < 2"
    using uvarint_put_nonempty [of "unat code"] uvarint_put_nonempty [of "length digest"]
    unfolding mh by (cases "uvarint_put (unat code)"; cases "uvarint_put (length digest)") simp_all
  show ?thesis
    using len unfolding mh_decode_def
    by (simp add: mh uvarint_roundtrip)
qed

lemma ref_IsValidHash_reads_back:
  assumes "ComputeMultihash ref_lib 18 content = Inr mh"
  shows "IsValidHash ref_lib (EncodeToString ref_lib content) (EncodeToString ref_lib mh) = None"
proof -
  have enc: "mh_encode (pad_digest content) 18 = Inr mh"
    using assms by (simp add: ComputeMultihash_def GetHash_def sha2_256_def ref_lib_def)
  have code: "GetMultihashCode ref_lib (EncodeToString ref_lib mh) = Inr 18"
    by (simp add: GetMultihashCode_def ref_lib_def b64url_roundtrip mh_roundtrip [OF enc])
  have content: "DecodeString ref_lib (EncodeToString ref_lib content) = Inr content"
    by (simp add: ref_lib_def b64url_roundtrip)
  show ?thesis
    by (simp add: IsValidHash_def content code assms)
qed

section \<open>The library instance on the inputs of the tests\<close>

lemma replicate_numeral_unfold:
  "replicate (numeral k) x = x # replicate (pred_numeral k) x"
  by (simp add: numeral_eq_Suc)

lemmas b64_run =
  b64url_encode.simps b64url_decode.simps b64_char_def b64_value_def b64_alphabet_def
  illegal_base64_def Let_def char_of_def bit_0

lemma ref_encode_test: "EncodeToString ref_lib ''test'' = ''dGVzdA''"
  by (simp add: ref_lib_def b64_run)

lemma ref_encode_content: "EncodeToString ref_lib ''content'' = ''Y29udGVudA''"
  by (simp add: ref_lib_def b64_run)

lemma ref_decode_test: "DecodeString ref_lib ''dGVzdA'' = Inr ''test''"
  by (simp add: ref_lib_def b64_run)

lemma ref_decode_content: "DecodeString ref_lib ''Y29udGVudA'' = Inr ''content''"
  by (simp add: ref_lib_def b64_run)

lemma ref_decode_corrupted:
  "DecodeString ref_lib ''XXXXXaGVsbG8='' = Inl (Err ''illegal base64 data'')"
  by (simp add: ref_lib_def b64_run)

lemma ref_multihash_test: "ComputeMultihash ref_lib 18 ''test'' = Inr mh_test"
  by (simp add: ComputeMultihash_def GetHash_def sha2_256_def ref_lib_def mh_encode_def
      uvarint_put.simps pad_digest_def char_of_def bit_0 mh_test_def)

lemma ref_multihash_content: "ComputeMultihash ref_lib 18 ''content'' = Inr mh_content"
  by (simp add: ComputeMultihash_def GetHash_def sha2_256_def ref_lib_def mh_encode_def
      uvarint_put.simps pad_digest_def char_of_def bit_0 mh_content_def)

lemma ref_encode_mh_test: "EncodeToString ref_lib mh_test = key_test"
  by (simp add: ref_lib_def mh_test_def pad_digest_def replicate_numeral_unfold key_test_def
      b64_run)

lemma ref_encode_mh_content: "EncodeToString ref_lib mh_content = key_content"
  by (simp add: ref_lib_def mh_content_def pad_digest_def replicate_numeral_unfold
      key_content_def b64_run)

lemma ref_decode_mh_test: "DecodeString ref_lib key_test = Inr mh_test"
  by (simp add: ref_lib_def mh_test_def pad_digest_def replicate_numeral_unfold key_test_def
      b64_run)

lemma ref_mh_decode_test:
  "multihash_Decode ref_lib mh_test =
     Inr \<lparr>Code = 18, Name = [], Length = 32, Digest = pad_digest ''test''\<rparr>"
  by (simp add: ref_lib_def mh_test_def mh_decode_def pad_digest_def replicate_numeral_unfold)

lemma ref_mh_decode_plain:
  "multihash_Decode ref_lib ''test'' = Inl (Err ''multihash length inconsistent'')"
  by (simp add: ref_lib_def mh_decode_def)

lemma ref_valid_code: "multihash_ValidCode ref_lib 18"
  by (simp add: ref_lib_def mh_valid_code_def)

lemma ref_code_test: "GetMultihashCode ref_lib key_test = Inr 18"
  by (simp add: GetMultihashCode_def ref_decode_mh_test ref_mh_decode_test)

section \<open>Multihash: what is supported, what verifies\<close>

text \<open>
  C7. \<^verbatim>\<open>GetHash\<close> and \<^verbatim>\<open>ComputeMultihash\<close> succeed only for the multihash code 18
  (SHA-256): \<^verbatim>\<open>GetHash\<close> succeeds exactly at 18, a result of \<^verbatim>\<open>ComputeMultihash\<close> implies
  the code 18, and for every other code both return no result and the error
  "algorithm not supported, unable to compute hash", which contains
  "algorithm not supported".
\<close>

theorem C7_only_sha2_256:
  "((\<exists>h. GetHash c = Inr h) \<longleftrightarrow> c = 18) \<and>
   ((\<exists>mh. ComputeMultihash L c bs = Inr mh) \<longrightarrow> c = 18) \<and>
   (c \<noteq> 18 \<longrightarrow>
      (\<exists>e. GetHash c = Inl e \<and> ComputeMultihash L c bs = Inl e \<and>
           Contains (message e) ''algorithm not supported''))"
proof -
  have sub: "Contains ''algorithm not supported, unable to compute hash''
               ''algorithm not supported''"
    unfolding Contains_def by (rule prefix_imp_sublist) simp
  show ?thesis
    using sub by (auto simp: GetHash_def ComputeMultihash_def sha2_256_def)
qed

theorem C7_only_sha2_256_witness:
  "(100 :: uint) \<noteq> 18 \<and> (0 :: uint) \<noteq> 18 \<and>
   (\<exists>e. GetHash 100 = Inl e \<and> ComputeMultihash ref_lib 100 ''test'' = Inl e \<and>
        Contains (message e) ''algorithm not supported'') \<and>
   (\<exists>e. GetHash 0 = Inl e \<and> ComputeMultihash ref_lib 0 ''test'' = Inl e \<and>
        Contains (message e) ''algorithm not supported'') \<and>
   (\<exists>h. GetHash 18 = Inr h) \<and> ComputeMultihash ref_lib 18 ''test'' = Inr mh_test"
  using C7_only_sha2_256 [of 100 ref_lib "''test''"] C7_only_sha2_256 [of 0 ref_lib "''test''"]
    C7_only_sha2_256 [of 18 ref_lib "''test''"] ref_multihash_test
  by simp

text \<open>
  C3. (1) Where the encodings read back (the base encoding of the content and of the
  multihash decode to themselves, and the multihash decodes to code 18),
  \<^verbatim>\<open>IsValidHash(encode(content), encode(ComputeMultihash(18, content)))\<close> returns nil.
  (2) The code used for the verification is the one embedded in the supplied multihash:
  \<^verbatim>\<open>GetMultihashCode\<close> returns a code exactly when the supplied string decodes to bytes
  that \<^verbatim>\<open>multihash.Decode\<close> accepts, and the code is the \<^verbatim>\<open>Code\<close> of what it returns.
  (3) \<^verbatim>\<open>IsValidHash\<close> returns nil exactly when the content decodes, the supplied
  multihash decodes, the multihash recomputed over the decoded content with the embedded
  code exists and its encoding equals the supplied one. (4) When the recomputed encoded
  multihash differs from the supplied one, the error is
  "supplied hash doesn't match original content". (5) When the embedded code is not 18,
  the error is "algorithm not supported, unable to compute hash", whatever the content.
  (6) An error of decoding the content, of decoding the supplied multihash, or of
  \<^verbatim>\<open>multihash.Decode\<close> is returned as it is.
\<close>

theorem C3_IsValidHash:
  "(ComputeMultihash L 18 content = Inr mh \<and>
    DecodeString L (EncodeToString L content) = Inr content \<and>
    DecodeString L (EncodeToString L mh) = Inr mh \<and>
    multihash_Decode L mh = Inr dm \<and> Code dm = 18 \<longrightarrow>
      IsValidHash L (EncodeToString L content) (EncodeToString L mh) = None) \<and>
   (GetMultihashCode L em = Inr code \<longleftrightarrow>
      (\<exists>mb d. DecodeString L em = Inr mb \<and> multihash_Decode L mb = Inr d \<and>
         Code d = code)) \<and>
   (IsValidHash L ec em = None \<longleftrightarrow>
      (\<exists>c mb d cm. DecodeString L ec = Inr c \<and> DecodeString L em = Inr mb \<and>
         multihash_Decode L mb = Inr d \<and>
         ComputeMultihash L (Code d) c = Inr cm \<and> EncodeToString L cm = em)) \<and>
   (DecodeString L ec = Inr c' \<and> DecodeString L em = Inr mb' \<and>
    multihash_Decode L mb' = Inr d' \<and>
    ComputeMultihash L (Code d') c' = Inr cm' \<and> EncodeToString L cm' \<noteq> em \<longrightarrow>
      IsValidHash L ec em = Some (Err ''supplied hash doesn't match original content'')) \<and>
   (DecodeString L ec = Inr c' \<and> DecodeString L em = Inr mb' \<and>
    multihash_Decode L mb' = Inr d' \<and> Code d' \<noteq> 18 \<longrightarrow>
      IsValidHash L ec em =
        Some (Err ''algorithm not supported, unable to compute hash'')) \<and>
   (DecodeString L ec = Inl err \<longrightarrow> IsValidHash L ec em = Some err) \<and>
   (DecodeString L ec = Inr c' \<and> DecodeString L em = Inl err \<longrightarrow>
      IsValidHash L ec em = Some err) \<and>
   (DecodeString L ec = Inr c' \<and> DecodeString L em = Inr mb' \<and>
    multihash_Decode L mb' = Inl err \<longrightarrow>
      IsValidHash L ec em = Some err)"
proof (intro conjI impI)
  assume "ComputeMultihash L 18 content = Inr mh \<and>
    DecodeString L (EncodeToString L content) = Inr content \<and>
    DecodeString L (EncodeToString L mh) = Inr mh \<and>
    multihash_Decode L mh = Inr dm \<and> Code dm = 18"
  then show "IsValidHash L (EncodeToString L content) (EncodeToString L mh) = None"
    by (simp add: IsValidHash_def GetMultihashCode_def)
next
  show "GetMultihashCode L em = Inr code \<longleftrightarrow>
      (\<exists>mb d. DecodeString L em = Inr mb \<and> multihash_Decode L mb = Inr d \<and>
         Code d = code)"
    by (auto simp: GetMultihashCode_def split: sum.splits)
next
  show "IsValidHash L ec em = None \<longleftrightarrow>
      (\<exists>c mb d cm. DecodeString L ec = Inr c \<and> DecodeString L em = Inr mb \<and>
         multihash_Decode L mb = Inr d \<and>
         ComputeMultihash L (Code d) c = Inr cm \<and> EncodeToString L cm = em)"
    by (auto simp: IsValidHash_def GetMultihashCode_def split: sum.splits)
next
  assume "DecodeString L ec = Inr c' \<and> DecodeString L em = Inr mb' \<and>
    multihash_Decode L mb' = Inr d' \<and>
    ComputeMultihash L (Code d') c' = Inr cm' \<and> EncodeToString L cm' \<noteq> em"
  then show "IsValidHash L ec em =
      Some (Err ''supplied hash doesn't match original content'')"
    by (simp add: IsValidHash_def GetMultihashCode_def)
next
  assume "DecodeString L ec = Inr c' \<and> DecodeString L em = Inr mb' \<and>
    multihash_Decode L mb' = Inr d' \<and> Code d' \<noteq> 18"
  then show "IsValidHash L ec em =
      Some (Err ''algorithm not supported, unable to compute hash'')"
    by (simp add: IsValidHash_def GetMultihashCode_def ComputeMultihash_def GetHash_def
        sha2_256_def)
next
  assume "DecodeString L ec = Inl err"
  then show "IsValidHash L ec em = Some err"
    by (simp add: IsValidHash_def)
next
  assume "DecodeString L ec = Inr c' \<and> DecodeString L em = Inl err"
  then show "IsValidHash L ec em = Some err"
    by (simp add: IsValidHash_def GetMultihashCode_def)
next
  assume "DecodeString L ec = Inr c' \<and> DecodeString L em = Inr mb' \<and>
    multihash_Decode L mb' = Inl err"
  then show "IsValidHash L ec em = Some err"
    by (simp add: IsValidHash_def GetMultihashCode_def)
qed

theorem C3_IsValidHash_witness:
  "ComputeMultihash ref_lib 18 ''test'' = Inr mh_test \<and>
   DecodeString ref_lib (EncodeToString ref_lib ''test'') = Inr ''test'' \<and>
   DecodeString ref_lib (EncodeToString ref_lib mh_test) = Inr mh_test \<and>
   IsValidHash ref_lib (EncodeToString ref_lib ''test'') (EncodeToString ref_lib mh_test) = None \<and>
   DecodeString ref_lib (EncodeToString ref_lib ''content'') = Inr ''content'' \<and>
   GetMultihashCode ref_lib key_test = Inr 18 \<and>
   ComputeMultihash ref_lib 18 ''content'' = Inr mh_content \<and>
   EncodeToString ref_lib mh_content \<noteq> key_test \<and>
   IsValidHash ref_lib (EncodeToString ref_lib ''content'') key_test =
     Some (Err ''supplied hash doesn't match original content'') \<and>
   DecodeString ref_lib (EncodeToString ref_lib mh_test_19) = Inr mh_test_19 \<and>
   multihash_Decode ref_lib mh_test_19 =
     Inr \<lparr>Code = 19, Name = [], Length = 32, Digest = pad_digest ''test''\<rparr> \<and>
   GetMultihashCode ref_lib (EncodeToString ref_lib mh_test_19) = Inr 19 \<and>
   IsValidHash ref_lib (EncodeToString ref_lib ''test'') (EncodeToString ref_lib mh_test_19) =
     Some (Err ''algorithm not supported, unable to compute hash'') \<and>
   DecodeString ref_lib ''hello'' = Inl (Err ''illegal base64 data'') \<and>
   IsValidHash ref_lib ''hello'' key_test = Some (Err ''illegal base64 data'')"
proof -
  let ?d18 = "\<lparr>Code = 18, Name = [], Length = 32, Digest = pad_digest ''test''\<rparr>"
  let ?d19 = "\<lparr>Code = 19, Name = [], Length = 32, Digest = pad_digest ''test''\<rparr>"
  have ne: "EncodeToString ref_lib mh_content \<noteq> key_test"
    by (simp add: ref_encode_mh_content key_content_def key_test_def)
  have ok: "IsValidHash ref_lib (EncodeToString ref_lib ''test'')
              (EncodeToString ref_lib mh_test) = None"
    using C3_IsValidHash [where L = ref_lib and content = "''test''" and mh = mh_test
        and dm = ?d18]
    by (simp add: ref_multihash_test ref_encode_test ref_decode_test ref_encode_mh_test
        ref_decode_mh_test ref_mh_decode_test)
  have bad: "IsValidHash ref_lib (EncodeToString ref_lib ''content'') key_test =
     Some (Err ''supplied hash doesn't match original content'')"
    using C3_IsValidHash [where L = ref_lib and ec = "EncodeToString ref_lib ''content''"
        and em = key_test and c' = "''content''" and mb' = mh_test and d' = ?d18
        and cm' = mh_content] ne
    by (simp add: ref_encode_content ref_decode_content ref_decode_mh_test
        ref_mh_decode_test ref_multihash_content)
  have dec19: "DecodeString ref_lib (EncodeToString ref_lib mh_test_19) = Inr mh_test_19"
    by (simp add: ref_lib_def b64url_roundtrip)
  have mh19: "multihash_Decode ref_lib mh_test_19 = Inr ?d19"
    by (simp add: ref_lib_def mh_test_19_def mh_decode_def pad_digest_def
        replicate_numeral_unfold)
  have code19: "GetMultihashCode ref_lib (EncodeToString ref_lib mh_test_19) = Inr 19"
    using C3_IsValidHash [where L = ref_lib and em = "EncodeToString ref_lib mh_test_19"
        and code = 19] dec19 mh19
    by simp
  have unsupported: "IsValidHash ref_lib (EncodeToString ref_lib ''test'')
      (EncodeToString ref_lib mh_test_19) =
      Some (Err ''algorithm not supported, unable to compute hash'')"
    using C3_IsValidHash [where L = ref_lib and ec = "EncodeToString ref_lib ''test''"
        and em = "EncodeToString ref_lib mh_test_19" and c' = "''test''"
        and mb' = mh_test_19 and d' = ?d19] dec19 mh19
    by (simp add: ref_encode_test ref_decode_test)
  have hello: "DecodeString ref_lib ''hello'' = Inl (Err ''illegal base64 data'')"
    by (simp add: ref_lib_def b64_run)
  have plain: "IsValidHash ref_lib ''hello'' key_test = Some (Err ''illegal base64 data'')"
    using C3_IsValidHash [where L = ref_lib and ec = "''hello''" and em = key_test
        and err = "Err ''illegal base64 data''"] hello
    by simp
  show ?thesis
    using ok bad ne dec19 mh19 code19 unsupported hello plain
    by (simp add: ref_multihash_test ref_encode_test ref_decode_test ref_encode_mh_test
        ref_decode_mh_test ref_encode_content ref_decode_content ref_code_test
        ref_multihash_content)
qed

text \<open>
  C10. \<^verbatim>\<open>IsSupportedMultihash\<close> and \<^verbatim>\<open>IsComputedUsingHashAlgorithm\<close> return a boolean on
  every string and have no failing path: they are false when the string does not decode
  and when the decoded bytes are not a multihash. On the base encoding of a result of
  \<^verbatim>\<open>ComputeMultihash(18, bytes)\<close> that reads back (it decodes to the multihash, which
  decodes to code 18), \<^verbatim>\<open>IsSupportedMultihash\<close> is true where code 18 is a valid code of
  the multihash library, and \<^verbatim>\<open>IsComputedUsingHashAlgorithm\<close> is true exactly for code 18.
\<close>

theorem C10_multihash_predicates:
  "(DecodeString L s = Inl e \<longrightarrow>
      \<not> IsSupportedMultihash L s \<and> \<not> IsComputedUsingHashAlgorithm L s c) \<and>
   (DecodeString L s = Inr b \<and> multihash_Decode L b = Inl e \<longrightarrow>
      \<not> IsSupportedMultihash L s \<and> \<not> IsComputedUsingHashAlgorithm L s c) \<and>
   (ComputeMultihash L 18 bs = Inr mh \<and> DecodeString L (EncodeToString L mh) = Inr mh \<and>
    multihash_Decode L mh = Inr dm \<and> Code dm = 18 \<longrightarrow>
      (multihash_ValidCode L 18 \<longrightarrow> IsSupportedMultihash L (EncodeToString L mh)) \<and>
      (IsComputedUsingHashAlgorithm L (EncodeToString L mh) c \<longleftrightarrow> c = 18))"
  by (auto simp: IsSupportedMultihash_def IsComputedUsingHashAlgorithm_def
      GetMultihashCode_def)

theorem C10_multihash_predicates_witness:
  "DecodeString ref_lib ''XXXXXaGVsbG8='' = Inl (Err ''illegal base64 data'') \<and>
   \<not> IsSupportedMultihash ref_lib ''XXXXXaGVsbG8='' \<and>
   \<not> IsComputedUsingHashAlgorithm ref_lib ''XXXXXaGVsbG8='' 18 \<and>
   DecodeString ref_lib ''dGVzdA'' = Inr ''test'' \<and>
   multihash_Decode ref_lib ''test'' = Inl (Err ''multihash length inconsistent'') \<and>
   \<not> IsSupportedMultihash ref_lib ''dGVzdA'' \<and>
   \<not> IsComputedUsingHashAlgorithm ref_lib ''dGVzdA'' 18 \<and>
   ComputeMultihash ref_lib 18 ''test'' = Inr mh_test \<and>
   DecodeString ref_lib (EncodeToString ref_lib mh_test) = Inr mh_test \<and>
   multihash_ValidCode ref_lib 18 \<and>
   IsSupportedMultihash ref_lib (EncodeToString ref_lib mh_test) \<and>
   IsComputedUsingHashAlgorithm ref_lib (EncodeToString ref_lib mh_test) 18 \<and>
   \<not> IsComputedUsingHashAlgorithm ref_lib (EncodeToString ref_lib mh_test) 55"
  using C10_multihash_predicates [where L = ref_lib and s = "''XXXXXaGVsbG8=''"
      and e = "Err ''illegal base64 data''" and c = 18]
    C10_multihash_predicates [where L = ref_lib and s = "''dGVzdA''"
      and e = "Err ''multihash length inconsistent''" and c = 18 and b = "''test''"]
    C10_multihash_predicates [where L = ref_lib and bs = "''test''" and mh = mh_test and c = 18
      and dm = "\<lparr>Code = 18, Name = [], Length = 32, Digest = pad_digest ''test''\<rparr>"]
    C10_multihash_predicates [where L = ref_lib and bs = "''test''" and mh = mh_test and c = 55
      and dm = "\<lparr>Code = 18, Name = [], Length = 32, Digest = pad_digest ''test''\<rparr>"]
  by (simp add: ref_decode_corrupted ref_decode_test ref_mh_decode_plain ref_multihash_test
      ref_encode_mh_test ref_decode_mh_test ref_mh_decode_test ref_valid_code)

section \<open>The update request\<close>

lemma validateUpdateRequest_None_iff:
  "validateUpdateRequest info = None \<longleftrightarrow>
     DidSuffix info \<noteq> [] \<and> Patch info \<noteq> None \<and>
     (\<exists>sg kid. Signer info = Some sg \<and> Headers sg ''kid'' = Some kid \<and> kid \<noteq> [])"
  by (auto simp: validateUpdateRequest_def validateSigner_def split: option.splits)

lemma NewUpdateRequest_invalid:
  "validateUpdateRequest info = Some err \<Longrightarrow> NewUpdateRequest L info s = (Inl err, s)"
  by (simp add: NewUpdateRequest_def)

lemma NewUpdateRequest_success_iff:
  assumes "validateUpdateRequest info = None" and "Signer info = Some sg"
  shows "NewUpdateRequest L info s = (Inr request, s') \<longleftrightarrow>
     (\<exists>deltaBytes mh payload jws.
        getDeltaBytes L (UpdateCommitment info) [Patch info] = Inr deltaBytes \<and>
        ComputeMultihash L (MultihashCode info) deltaBytes = Inr mh \<and>
        MarshalCanonical L
          (UpdateSignedDataModel_json
             \<lparr>usd_UpdateKey = UpdateKey info, usd_DeltaHash = EncodeToString L mh\<rparr>) = Inr payload \<and>
        Sign sg payload s = (Inr jws, s') \<and>
        MarshalCanonical L
          (UpdateRequest_json
             \<lparr>ur_Operation = model_OperationTypeUpdate, ur_DidSuffix = DidSuffix info,
              ur_SignedData = jws, ur_Delta = EncodeToString L deltaBytes\<rparr>) = Inr request)"
  using assms
  by (auto simp: NewUpdateRequest_def getEncodedMultihash_def SignModel_def
      split: sum.splits prod.splits)

subsection \<open>The request of the tests under the library instance\<close>

lemma test_info_valid:
  "Headers sg ''kid'' = Some kid \<Longrightarrow> kid \<noteq> [] \<Longrightarrow>
   validateUpdateRequest (test_info (Some sg)) = None"
  by (simp add: validateUpdateRequest_def validateSigner_def test_info_def test_patch_def)

lemma mock_signer_kid: "Headers (mock_signer err) ''kid'' = Some ''kid''"
  by (simp add: mock_signer_def)

lemma ref_NewUpdateRequest:
  assumes "Headers sg ''kid'' = Some kid" and "kid \<noteq> []"
  shows "NewUpdateRequest ref_lib (test_info (Some sg)) s =
             (case Sign sg test_payload s of
                (Inl err, s') \<Rightarrow> (Inl err, s')
              | (Inr jws, s') \<Rightarrow> (Inr (canonical_json (test_request jws)), s'))"
  using test_info_valid [OF assms]
  by (simp add: NewUpdateRequest_def getDeltaBytes_def getEncodedMultihash_def
      ComputeMultihash_def GetHash_def sha2_256_def SignModel_def ref_lib_def mh_encode_def
      UpdateRequest_json_def model_OperationTypeUpdate_def test_info_def
      test_delta_bytes_def test_delta_mh_def test_payload_def test_request_def
      split: prod.splits sum.splits)

lemma mock_signer_Sign:
  "Sign (mock_signer err) payload s =
     (case err of
        Some e \<Rightarrow> (Inl e, s)
      | None \<Rightarrow>
          (Inr (compact_jws [(''alg'', ''alg''), (''kid'', ''kid'')] payload ''signature''), s))"
  by (simp add: mock_signer_def)

subsection \<open>Claims about the update request\<close>

text \<open>
  C6. \<^verbatim>\<open>NewUpdateRequest\<close> rejects an invalid request before it signs, with the error of the
  first check that fails and no request bytes: an empty \<^verbatim>\<open>DidSuffix\<close> gives
  "missing did unique suffix"; a \<^verbatim>\<open>DidSuffix\<close> with a nil \<^verbatim>\<open>Patch\<close> gives
  "missing update information"; past these two checks, a signer whose headers have no
  \<^verbatim>\<open>kid\<close> or an empty one gives "kid must be present in the protected header". In each
  case, and for every error of the validation, the signer's state is the one before the
  call (nothing was signed); and whenever the call fails, the bytes returned are empty.
\<close>

theorem C6_rejects_before_signing:
  "(DidSuffix info = [] \<longrightarrow>
      NewUpdateRequest L info s = (Inl (Err ''missing did unique suffix''), s)) \<and>
   (DidSuffix info \<noteq> [] \<and> Patch info = None \<longrightarrow>
      NewUpdateRequest L info s = (Inl (Err ''missing update information''), s)) \<and>
   (DidSuffix info \<noteq> [] \<and> Patch info \<noteq> None \<and> Signer info = Some sg \<and>
    (Headers sg ''kid'' = None \<or> Headers sg ''kid'' = Some []) \<longrightarrow>
      NewUpdateRequest L info s =
        (Inl (Err ''kid must be present in the protected header''), s)) \<and>
   (\<forall>err. validateUpdateRequest info = Some err \<longrightarrow>
      NewUpdateRequest L info s = (Inl err, s)) \<and>
   (\<forall>err s'. NewUpdateRequest L info s = (Inl err, s') \<longrightarrow>
      request_bytes (fst (NewUpdateRequest L info s)) = [])"
proof (intro conjI impI allI)
  assume "DidSuffix info = []"
  then show "NewUpdateRequest L info s = (Inl (Err ''missing did unique suffix''), s)"
    by (simp add: NewUpdateRequest_def validateUpdateRequest_def)
next
  assume "DidSuffix info \<noteq> [] \<and> Patch info = None"
  then show "NewUpdateRequest L info s = (Inl (Err ''missing update information''), s)"
    by (simp add: NewUpdateRequest_def validateUpdateRequest_def)
next
  assume "DidSuffix info \<noteq> [] \<and> Patch info \<noteq> None \<and> Signer info = Some sg \<and>
    (Headers sg ''kid'' = None \<or> Headers sg ''kid'' = Some [])"
  then have "validateUpdateRequest info =
      Some (Err ''kid must be present in the protected header'')"
    by (auto simp: validateUpdateRequest_def validateSigner_def)
  then show "NewUpdateRequest L info s =
      (Inl (Err ''kid must be present in the protected header''), s)"
    by (rule NewUpdateRequest_invalid)
next
  fix err
  assume "validateUpdateRequest info = Some err"
  then show "NewUpdateRequest L info s = (Inl err, s)"
    by (rule NewUpdateRequest_invalid)
next
  fix err s'
  assume "NewUpdateRequest L info s = (Inl err, s')"
  then show "request_bytes (fst (NewUpdateRequest L info s)) = []"
    by simp
qed

theorem C6_rejects_before_signing_witness:
  "DidSuffix (zero_info :: nat UpdateRequestInfo) = [] \<and>
   NewUpdateRequest ref_lib zero_info (0 :: nat) =
     (Inl (Err ''missing did unique suffix''), 0) \<and>
   DidSuffix (suffix_only_info :: nat UpdateRequestInfo) \<noteq> [] \<and>
   Patch (suffix_only_info :: nat UpdateRequestInfo) = None \<and>
   NewUpdateRequest ref_lib suffix_only_info (0 :: nat) =
     (Inl (Err ''missing update information''), 0) \<and>
   DidSuffix (test_info (Some empty_headers_signer) :: nat UpdateRequestInfo) \<noteq> [] \<and>
   Patch (test_info (Some empty_headers_signer) :: nat UpdateRequestInfo) \<noteq> None \<and>
   Headers (empty_headers_signer :: nat Signer) ''kid'' = None \<and>
   NewUpdateRequest ref_lib (test_info (Some empty_headers_signer)) (0 :: nat) =
     (Inl (Err ''kid must be present in the protected header''), 0) \<and>
   request_bytes (fst (NewUpdateRequest ref_lib (test_info (Some empty_headers_signer))
     (0 :: nat))) = []"
  using C6_rejects_before_signing [where L = ref_lib and info = "zero_info :: nat UpdateRequestInfo"
      and s = 0]
    C6_rejects_before_signing [where L = ref_lib
      and info = "suffix_only_info :: nat UpdateRequestInfo" and s = 0]
    C6_rejects_before_signing [where L = ref_lib
      and info = "test_info (Some empty_headers_signer) :: nat UpdateRequestInfo"
      and sg = empty_headers_signer and s = 0]
  by (simp add: zero_info_def suffix_only_info_def test_info_def test_patch_def
      empty_headers_signer_def)

text \<open>
  C1, as the code has it. For a request with a non-empty \<^verbatim>\<open>DidSuffix\<close>, a patch, the
  multihash code 18 and a signer whose headers carry a non-empty \<^verbatim>\<open>kid\<close>:
  (1) \<^verbatim>\<open>NewUpdateRequest\<close> returns request bytes exactly when the canonical
  serializations, the multihash and the signer's \<^verbatim>\<open>Sign\<close> return theirs. The bytes are then
  the canonical JSON of the object with exactly the members \<^verbatim>\<open>type\<close> = "update",
  \<^verbatim>\<open>did_suffix\<close>, \<^verbatim>\<open>signed_data\<close> and \<^verbatim>\<open>delta\<close>; \<^verbatim>\<open>signed_data\<close> is what the signer returned
  for the canonical JSON of \<^verbatim>\<open>{update_key, delta_hash}\<close>; \<^verbatim>\<open>delta\<close> is the base encoding of the
  canonical delta \<^verbatim>\<open>{update_commitment, patches:[patch]}\<close>; and the \<^verbatim>\<open>delta_hash\<close> inside the
  signed data is the base encoding of the multihash (code 18) of those delta bytes. Where
  the encodings read back, decoding \<^verbatim>\<open>delta\<close> and hashing again gives that \<^verbatim>\<open>delta_hash\<close>,
  and \<^verbatim>\<open>IsValidHash\<close> accepts \<^verbatim>\<open>delta\<close> against it.
  (2) Whenever the signer returns an error for that payload, the call fails with the
  signer's error and returns no bytes.
  (3) An error of a canonical serialization or of the multihash is returned as it is,
  with nothing signed.
\<close>

theorem C1_update_request:
  assumes "DidSuffix info \<noteq> []" and "Patch info = Some members"
    and "MultihashCode info = 18" and "Signer info = Some sg"
    and "Headers sg ''kid'' = Some kid" and "kid \<noteq> []"
  shows
    "(NewUpdateRequest L info s = (Inr request, s') \<longleftrightarrow>
       (\<exists>deltaBytes mh payload jws.
          MarshalCanonical L
            (JObject
               ((if UpdateCommitment info = [] then []
                 else [(''update_commitment'', JString (UpdateCommitment info))]) @
                [(''patches'', JArray [JObject members])])) = Inr deltaBytes \<and>
          ComputeMultihash L 18 deltaBytes = Inr mh \<and>
          MarshalCanonical L
            (JObject [(''update_key'', JWK_json (UpdateKey info)),
                      (''delta_hash'', JString (EncodeToString L mh))]) = Inr payload \<and>
          Sign sg payload s = (Inr jws, s') \<and>
          MarshalCanonical L
            (JObject [(''type'', JString ''update''),
                      (''did_suffix'', JString (DidSuffix info)),
                      (''signed_data'', JString jws),
                      (''delta'', JString (EncodeToString L deltaBytes))]) = Inr request \<and>
          (DecodeString L (EncodeToString L deltaBytes) = Inr deltaBytes \<longrightarrow>
             (\<exists>d. DecodeString L (EncodeToString L deltaBytes) = Inr d \<and>
                  getEncodedMultihash L 18 d = Inr (EncodeToString L mh))) \<and>
          (DecodeString L (EncodeToString L deltaBytes) = Inr deltaBytes \<and>
           DecodeString L (EncodeToString L mh) = Inr mh \<and>
           (\<exists>dm. multihash_Decode L mh = Inr dm \<and> Code dm = 18) \<longrightarrow>
             IsValidHash L (EncodeToString L deltaBytes) (EncodeToString L mh) = None))) \<and>
     (\<forall>deltaBytes mh payload err.
        MarshalCanonical L
          (JObject
             ((if UpdateCommitment info = [] then []
               else [(''update_commitment'', JString (UpdateCommitment info))]) @
              [(''patches'', JArray [JObject members])])) = Inr deltaBytes \<and>
        ComputeMultihash L 18 deltaBytes = Inr mh \<and>
        MarshalCanonical L
          (JObject [(''update_key'', JWK_json (UpdateKey info)),
                    (''delta_hash'', JString (EncodeToString L mh))]) = Inr payload \<and>
        Sign sg payload s = (Inl err, s') \<longrightarrow>
          NewUpdateRequest L info s = (Inl err, s') \<and>
          request_bytes (fst (NewUpdateRequest L info s)) = []) \<and>
     (\<forall>err.
        MarshalCanonical L
          (JObject
             ((if UpdateCommitment info = [] then []
               else [(''update_commitment'', JString (UpdateCommitment info))]) @
              [(''patches'', JArray [JObject members])])) = Inl err \<longrightarrow>
          NewUpdateRequest L info s = (Inl err, s)) \<and>
     (\<forall>deltaBytes err.
        MarshalCanonical L
          (JObject
             ((if UpdateCommitment info = [] then []
               else [(''update_commitment'', JString (UpdateCommitment info))]) @
              [(''patches'', JArray [JObject members])])) = Inr deltaBytes \<and>
        ComputeMultihash L 18 deltaBytes = Inl err \<longrightarrow>
          NewUpdateRequest L info s = (Inl err, s)) \<and>
     (\<forall>deltaBytes mh err.
        MarshalCanonical L
          (JObject
             ((if UpdateCommitment info = [] then []
               else [(''update_commitment'', JString (UpdateCommitment info))]) @
              [(''patches'', JArray [JObject members])])) = Inr deltaBytes \<and>
        ComputeMultihash L 18 deltaBytes = Inr mh \<and>
        MarshalCanonical L
          (JObject [(''update_key'', JWK_json (UpdateKey info)),
                    (''delta_hash'', JString (EncodeToString L mh))]) = Inl err \<longrightarrow>
          NewUpdateRequest L info s = (Inl err, s)) \<and>
     (\<forall>deltaBytes mh payload jws.
        MarshalCanonical L
          (JObject
             ((if UpdateCommitment info = [] then []
               else [(''update_commitment'', JString (UpdateCommitment info))]) @
              [(''patches'', JArray [JObject members])])) = Inr deltaBytes \<and>
        ComputeMultihash L 18 deltaBytes = Inr mh \<and>
        MarshalCanonical L
          (JObject [(''update_key'', JWK_json (UpdateKey info)),
                    (''delta_hash'', JString (EncodeToString L mh))]) = Inr payload \<and>
        Sign sg payload s = (Inr jws, s') \<longrightarrow>
          NewUpdateRequest L info s =
            (MarshalCanonical L
               (JObject [(''type'', JString ''update''),
                         (''did_suffix'', JString (DidSuffix info)),
                         (''signed_data'', JString jws),
                         (''delta'', JString (EncodeToString L deltaBytes))]), s'))"
proof -
  have valid: "validateUpdateRequest info = None"
    using assms by (simp add: validateUpdateRequest_None_iff)
  have rehash: "\<And>deltaBytes mh. ComputeMultihash L 18 deltaBytes = Inr mh \<Longrightarrow>
      getEncodedMultihash L 18 deltaBytes = Inr (EncodeToString L mh)"
    by (simp add: getEncodedMultihash_def)
  have accepts: "\<And>deltaBytes mh dm. ComputeMultihash L 18 deltaBytes = Inr mh \<Longrightarrow>
      DecodeString L (EncodeToString L deltaBytes) = Inr deltaBytes \<Longrightarrow>
      DecodeString L (EncodeToString L mh) = Inr mh \<Longrightarrow>
      multihash_Decode L mh = Inr dm \<Longrightarrow> Code dm = 18 \<Longrightarrow>
      IsValidHash L (EncodeToString L deltaBytes) (EncodeToString L mh) = None"
    by (simp add: IsValidHash_def GetMultihashCode_def)
  have success: "NewUpdateRequest L info s = (Inr request, s') \<longleftrightarrow>
       (\<exists>deltaBytes mh payload jws.
          MarshalCanonical L
            (JObject
               ((if UpdateCommitment info = [] then []
                 else [(''update_commitment'', JString (UpdateCommitment info))]) @
                [(''patches'', JArray [JObject members])])) = Inr deltaBytes \<and>
          ComputeMultihash L 18 deltaBytes = Inr mh \<and>
          MarshalCanonical L
            (JObject [(''update_key'', JWK_json (UpdateKey info)),
                      (''delta_hash'', JString (EncodeToString L mh))]) = Inr payload \<and>
          Sign sg payload s = (Inr jws, s') \<and>
          MarshalCanonical L
            (JObject [(''type'', JString ''update''),
                      (''did_suffix'', JString (DidSuffix info)),
                      (''signed_data'', JString jws),
                      (''delta'', JString (EncodeToString L deltaBytes))]) = Inr request \<and>
          (DecodeString L (EncodeToString L deltaBytes) = Inr deltaBytes \<longrightarrow>
             (\<exists>d. DecodeString L (EncodeToString L deltaBytes) = Inr d \<and>
                  getEncodedMultihash L 18 d = Inr (EncodeToString L mh))) \<and>
          (DecodeString L (EncodeToString L deltaBytes) = Inr deltaBytes \<and>
           DecodeString L (EncodeToString L mh) = Inr mh \<and>
           (\<exists>dm. multihash_Decode L mh = Inr dm \<and> Code dm = 18) \<longrightarrow>
             IsValidHash L (EncodeToString L deltaBytes) (EncodeToString L mh) = None))"
    unfolding NewUpdateRequest_success_iff [OF valid assms(4)]
    using assms(2,3) rehash accepts
    by (auto simp: getDeltaBytes_def DeltaModel_json_def UpdateSignedDataModel_json_def
        UpdateRequest_json_def model_OperationTypeUpdate_def)
  have steps: "NewUpdateRequest L info s =
      (case MarshalCanonical L
              (JObject
                 ((if UpdateCommitment info = [] then []
                   else [(''update_commitment'', JString (UpdateCommitment info))]) @
                  [(''patches'', JArray [JObject members])])) of
         Inl err \<Rightarrow> (Inl err, s)
       | Inr deltaBytes \<Rightarrow>
           (case ComputeMultihash L 18 deltaBytes of
              Inl err \<Rightarrow> (Inl err, s)
            | Inr mh \<Rightarrow>
                (case MarshalCanonical L
                        (JObject [(''update_key'', JWK_json (UpdateKey info)),
                                  (''delta_hash'', JString (EncodeToString L mh))]) of
                   Inl err \<Rightarrow> (Inl err, s)
                 | Inr payload \<Rightarrow>
                     (case Sign sg payload s of
                        (Inl err, s') \<Rightarrow> (Inl err, s')
                      | (Inr jws, s') \<Rightarrow>
                          (MarshalCanonical L
                             (JObject [(''type'', JString ''update''),
                                       (''did_suffix'', JString (DidSuffix info)),
                                       (''signed_data'', JString jws),
                                       (''delta'', JString (EncodeToString L deltaBytes))]),
                           s')))))"
    using valid assms(2,3,4)
    by (simp add: NewUpdateRequest_def getDeltaBytes_def getEncodedMultihash_def
        SignModel_def DeltaModel_json_def UpdateSignedDataModel_json_def
        UpdateRequest_json_def model_OperationTypeUpdate_def
        split: sum.splits prod.splits)
  show ?thesis
    by (intro conjI allI impI, rule success) (simp_all add: steps)
qed

theorem C1_update_request_witness:
  "DidSuffix (test_info (Some (mock_signer None)) :: unit UpdateRequestInfo) \<noteq> [] \<and>
   Patch (test_info (Some (mock_signer None)) :: unit UpdateRequestInfo) =
     Some test_patch_members \<and>
   MultihashCode (test_info (Some (mock_signer None)) :: unit UpdateRequestInfo) = 18 \<and>
   Headers (mock_signer None :: unit Signer) ''kid'' = Some ''kid'' \<and>
   Sign (mock_signer None) test_payload () =
     (Inr (compact_jws [(''alg'', ''alg''), (''kid'', ''kid'')] test_payload ''signature''), ()) \<and>
   NewUpdateRequest ref_lib (test_info (Some (mock_signer None))) () =
     (Inr (canonical_json (test_request
        (compact_jws [(''alg'', ''alg''), (''kid'', ''kid'')] test_payload ''signature''))), ()) \<and>
   DecodeString ref_lib (EncodeToString ref_lib test_delta_bytes) = Inr test_delta_bytes \<and>
   DecodeString ref_lib (EncodeToString ref_lib test_delta_mh) = Inr test_delta_mh \<and>
   IsValidHash ref_lib (EncodeToString ref_lib test_delta_bytes)
     (EncodeToString ref_lib test_delta_mh) = None \<and>
   Headers (mock_signer (Some (Err ''signer error'')) :: unit Signer) ''kid'' = Some ''kid'' \<and>
   Sign (mock_signer (Some (Err ''signer error''))) test_payload () =
     (Inl (Err ''signer error''), ()) \<and>
   NewUpdateRequest ref_lib (test_info (Some (mock_signer (Some (Err ''signer error''))))) () =
     (Inl (Err ''signer error''), ())"
proof -
  let ?I = "test_info (Some (mock_signer None)) :: unit UpdateRequestInfo"
  let ?F = "test_info (Some (mock_signer (Some (Err ''signer error''))))
    :: unit UpdateRequestInfo"
  let ?jws = "compact_jws [(''alg'', ''alg''), (''kid'', ''kid'')] test_payload ''signature''"
  let ?delta = "JObject ((if UpdateCommitment ?I = [] then []
                 else [(''update_commitment'', JString (UpdateCommitment ?I))]) @
                [(''patches'', JArray [JObject test_patch_members])])"
  have hyps: "DidSuffix ?I \<noteq> []" "Patch ?I = Some test_patch_members"
    "MultihashCode ?I = 18" "Signer ?I = Some (mock_signer None)"
    "Headers (mock_signer None :: unit Signer) ''kid'' = Some ''kid''" "''kid'' \<noteq> []"
    by (simp_all add: test_info_def test_patch_def mock_signer_kid)
  have fhyps: "DidSuffix ?F \<noteq> []" "Patch ?F = Some test_patch_members"
    "MultihashCode ?F = 18" "Signer ?F = Some (mock_signer (Some (Err ''signer error'')))"
    "Headers (mock_signer (Some (Err ''signer error'')) :: unit Signer) ''kid'' = Some ''kid''"
    "''kid'' \<noteq> []"
    by (simp_all add: test_info_def test_patch_def mock_signer_kid)
  have sign: "Sign (mock_signer None) test_payload () = (Inr ?jws, ())"
    by (simp add: mock_signer_Sign)
  have fsign: "Sign (mock_signer (Some (Err ''signer error''))) test_payload () =
      (Inl (Err ''signer error''), ())"
    by (simp add: mock_signer_Sign)
  have delta: "MarshalCanonical ref_lib ?delta = Inr test_delta_bytes"
    by (simp add: ref_lib_def test_info_def test_delta_bytes_def DeltaModel_json_def
        test_patch_def)
  have fdelta: "MarshalCanonical ref_lib
      (JObject ((if UpdateCommitment ?F = [] then []
                 else [(''update_commitment'', JString (UpdateCommitment ?F))]) @
                [(''patches'', JArray [JObject test_patch_members])])) = Inr test_delta_bytes"
    by (simp add: ref_lib_def test_info_def test_delta_bytes_def DeltaModel_json_def
        test_patch_def)
  have mh: "ComputeMultihash ref_lib 18 test_delta_bytes = Inr test_delta_mh"
    by (simp add: ComputeMultihash_def GetHash_def sha2_256_def ref_lib_def mh_encode_def
        test_delta_mh_def)
  have payload: "MarshalCanonical ref_lib
      (JObject [(''update_key'', JWK_json (UpdateKey ?I)),
                (''delta_hash'', JString (EncodeToString ref_lib test_delta_mh))]) =
      Inr test_payload"
    by (simp add: ref_lib_def test_info_def test_payload_def UpdateSignedDataModel_json_def)
  have fpayload: "MarshalCanonical ref_lib
      (JObject [(''update_key'', JWK_json (UpdateKey ?F)),
                (''delta_hash'', JString (EncodeToString ref_lib test_delta_mh))]) =
      Inr test_payload"
    by (simp add: ref_lib_def test_info_def test_payload_def UpdateSignedDataModel_json_def)
  have request: "MarshalCanonical ref_lib
      (JObject [(''type'', JString ''update''), (''did_suffix'', JString (DidSuffix ?I)),
                (''signed_data'', JString ?jws),
                (''delta'', JString (EncodeToString ref_lib test_delta_bytes))]) =
      Inr (canonical_json (test_request ?jws))"
    by (simp add: ref_lib_def test_info_def test_request_def)
  have back1: "DecodeString ref_lib (EncodeToString ref_lib test_delta_bytes) =
      Inr test_delta_bytes"
    and back2: "DecodeString ref_lib (EncodeToString ref_lib test_delta_mh) =
      Inr test_delta_mh"
    by (simp_all add: ref_lib_def b64url_roundtrip)
  have enc: "mh_encode (pad_digest test_delta_bytes) 18 = Inr test_delta_mh"
    by (simp add: mh_encode_def test_delta_mh_def)
  have back3: "\<exists>dm. multihash_Decode ref_lib test_delta_mh = Inr dm \<and> Code dm = 18"
    by (simp add: ref_lib_def mh_roundtrip [OF enc])
  note all = C1_update_request [OF hyps, where L = ref_lib and s = "()" and s' = "()"
      and request = "canonical_json (test_request ?jws)"]
  have ok: "NewUpdateRequest ref_lib ?I () = (Inr (canonical_json (test_request ?jws)), ())"
    using all [THEN conjunct2, THEN conjunct2, THEN conjunct2, THEN conjunct2,
        THEN conjunct2, rule_format, of test_delta_bytes test_delta_mh test_payload ?jws]
      delta mh payload sign request
    by simp
  from all [THEN conjunct1] ok obtain deltaBytes mh' where
    d: "MarshalCanonical ref_lib ?delta = Inr deltaBytes"
    and m: "ComputeMultihash ref_lib 18 deltaBytes = Inr mh'"
    and v: "DecodeString ref_lib (EncodeToString ref_lib deltaBytes) = Inr deltaBytes \<and>
           DecodeString ref_lib (EncodeToString ref_lib mh') = Inr mh' \<and>
           (\<exists>dm. multihash_Decode ref_lib mh' = Inr dm \<and> Code dm = 18) \<longrightarrow>
             IsValidHash ref_lib (EncodeToString ref_lib deltaBytes)
               (EncodeToString ref_lib mh') = None"
    by blast
  have "deltaBytes = test_delta_bytes" using d delta by simp
  moreover from this have "mh' = test_delta_mh" using m mh by simp
  ultimately have accepted: "IsValidHash ref_lib (EncodeToString ref_lib test_delta_bytes)
      (EncodeToString ref_lib test_delta_mh) = None"
    using v back1 back2 back3 by simp
  have failed: "NewUpdateRequest ref_lib ?F () = (Inl (Err ''signer error''), ())"
    using C1_update_request [OF fhyps, where L = ref_lib and s = "()" and s' = "()",
        THEN conjunct2, THEN conjunct1, rule_format,
        of test_delta_bytes test_delta_mh test_payload "Err ''signer error''"]
      fdelta mh fpayload fsign
    by simp
  show ?thesis
    using hyps(1,2,3,5) sign ok back1 back2 accepted fhyps(5) fsign failed
    by simp
qed

text \<open>
  C1 as stated fails: the signer of the test "signing error" has the \<^verbatim>\<open>kid\<close> header, the
  request has a suffix, a patch and the code 18, and the call returns the signer's error.
\<close>

theorem C1_signing_error_counterexample:
  "DidSuffix (test_info (Some (mock_signer (Some (Err ''signer error''))))
     :: unit UpdateRequestInfo) = ''whatever'' \<and>
   Patch (test_info (Some (mock_signer (Some (Err ''signer error''))))
     :: unit UpdateRequestInfo) = Some test_patch_members \<and>
   MultihashCode (test_info (Some (mock_signer (Some (Err ''signer error''))))
     :: unit UpdateRequestInfo) = 18 \<and>
   Headers (mock_signer (Some (Err ''signer error'')) :: unit Signer) ''kid'' = Some ''kid'' \<and>
   NewUpdateRequest ref_lib (test_info (Some (mock_signer (Some (Err ''signer error''))))) () =
     (Inl (Err ''signer error''), ())"
proof -
  have "NewUpdateRequest ref_lib
          (test_info (Some (mock_signer (Some (Err ''signer error''))))) () =
        (Inl (Err ''signer error''), ())"
    by (subst ref_NewUpdateRequest [OF mock_signer_kid]) (simp_all add: mock_signer_Sign)
  then show ?thesis
    by (simp add: test_info_def test_patch_def mock_signer_kid)
qed

section \<open>The payload of a request: which types are dispatched\<close>


















section \<open>The transaction processor\<close>

lemma suffix_update [simp]:
  "ao_UniqueSuffix (updateAnchoredOperation op index t) = ao_UniqueSuffix op"
  by (simp add: updateAnchoredOperation_def)

lemma deduplicate_suffixes:
  "set (map ao_UniqueSuffix (deduplicate seen index txnOps t)) =
     set (map ao_UniqueSuffix txnOps) - seen"
  by (induction txnOps arbitrary: seen index) auto

lemma deduplicate_distinct:
  "distinct (map ao_UniqueSuffix (deduplicate seen index txnOps t))"
proof (induction txnOps arbitrary: seen index)
  case Nil
  then show ?case by simp
next
  case (Cons op txnOps)
  have "ao_UniqueSuffix op \<notin>
      set (map ao_UniqueSuffix
        (deduplicate (insert (ao_UniqueSuffix op) seen) (Suc index) txnOps t))"
    unfolding deduplicate_suffixes by simp
  with Cons show ?case by simp
qed

lemma first_kept_0:
  "first_kept k seen index (op # ops) t 0 \<longleftrightarrow>
     k = updateAnchoredOperation op (of_nat index) t \<and> ao_UniqueSuffix op \<notin> seen"
  by (simp add: first_kept_def)

lemma ex_less_Cons:
  "(\<exists>i < length (x # xs). P i) \<longleftrightarrow> P 0 \<or> (\<exists>i < length xs. P (Suc i))"
  unfolding length_Cons by (rule Ex_less_Suc2)

lemma all_less_Cons:
  "(\<forall>j < Suc i. Q ((x # xs) ! j)) \<longleftrightarrow> Q x \<and> (\<forall>j < i. Q (xs ! j))"
  unfolding All_less_Suc2 by simp

lemma first_kept_Suc:
  "first_kept k seen index (op # ops) t (Suc i) \<longleftrightarrow>
     first_kept k (insert (ao_UniqueSuffix op) seen) (Suc index) ops t i"
proof -
  have idx: "index + Suc i = Suc index + i" by simp
  have prior:
    "(\<forall>j < Suc i. ao_UniqueSuffix ((op # ops) ! j) \<noteq> ao_UniqueSuffix (ops ! i)) \<longleftrightarrow>
      ao_UniqueSuffix op \<noteq> ao_UniqueSuffix (ops ! i) \<and>
      (\<forall>j < i. ao_UniqueSuffix (ops ! j) \<noteq> ao_UniqueSuffix (ops ! i))"
    by (rule all_less_Cons [where Q = "\<lambda>a. ao_UniqueSuffix a \<noteq> ao_UniqueSuffix (ops ! i)"])
  have shape: "\<And>A R (b :: string) c.
      (A \<and> b \<notin> seen \<and> c \<noteq> b \<and> R) \<longleftrightarrow> (A \<and> \<not> (b = c \<or> b \<in> seen) \<and> R)"
    by blast
  show ?thesis
    unfolding first_kept_def nth_Cons_Suc idx prior insert_iff
    by (rule shape)
qed

lemma deduplicate_first:
  "k \<in> set (deduplicate seen index txnOps t) \<longleftrightarrow>
     (\<exists>i < length txnOps. first_kept k seen index txnOps t i)"
proof (induction txnOps arbitrary: seen index)
  case Nil
  then show ?case by simp
next
  case (Cons op txnOps)
  show ?case
  proof (cases "ao_UniqueSuffix op \<in> seen")
    case True
    then have ins: "insert (ao_UniqueSuffix op) seen = seen" by auto
    show ?thesis
      unfolding ex_less_Cons first_kept_0 first_kept_Suc ins
      using True Cons.IH [of seen "Suc index"] by simp
  next
    case False
    show ?thesis
      unfolding ex_less_Cons first_kept_0 first_kept_Suc
      using False Cons.IH [of "insert (ao_UniqueSuffix op) seen" "Suc index"] by simp
  qed
qed


lemma aggregate_Contains: "Contains (message (aggregate context err)) context"
  unfolding Contains_def aggregate_def by (simp add: prefix_imp_sublist)

lemma stamped_abc:
  "updateAnchoredOperation abc_operation 0 (test_txn anchor) =
     abc_operation\<lparr>ao_TransactionTime := 20, ao_TransactionNumber := 2\<rparr>"
  by (simp add: updateAnchoredOperation_def abc_operation_def test_txn_def)

lemma mock_process_two:
  "processTxnOperations mock_providers [abc_operation, abc_operation] (test_txn anchor) =
     (None, [PutCalled ''did:sidetree''
               [abc_operation\<lparr>ao_TransactionTime := 20, ao_TransactionNumber := 2\<rparr>]])"
  by (simp add: processTxnOperations_def Let_def mock_providers_def mock_store_def stamped_abc)
    (simp add: test_txn_def)

lemma mock_process_one:
  "processTxnOperations P [abc_operation] (test_txn anchor) =
     (None, [PutCalled ''did:sidetree''
               [abc_operation\<lparr>ao_TransactionTime := 20, ao_TransactionNumber := 2\<rparr>]])"
  if "ForNamespace P = (\<lambda>ns. Inr mock_store)"
  using that
  by (simp add: processTxnOperations_def Let_def mock_store_def stamped_abc)
    (simp add: test_txn_def)

text \<open>
  C2. For every list of anchored operations processed for a transaction whose store is
  obtained, \<open>put\<close> is invoked once, with at most one operation per unique suffix: the
  operations handed over have distinct suffixes, every suffix of the batch is among
  them, and each is the stamped first operation of the batch with its suffix (no
  earlier operation has the suffix). Later operations with a suffix already kept are
  dropped without an error: the result is an error only if \<open>put\<close> itself returns one.
\<close>

theorem C2_deduplicates_keeping_first:
  assumes "ForNamespace P (txn_Namespace t) = Inr opStore"
  shows "\<exists>kept.
      snd (processTxnOperations P txnOps t) = [PutCalled (txn_Namespace t) kept] \<and>
      distinct (map ao_UniqueSuffix kept) \<and>
      set (map ao_UniqueSuffix kept) = set (map ao_UniqueSuffix txnOps) \<and>
      (\<forall>k. k \<in> set kept \<longleftrightarrow>
         (\<exists>i < length txnOps.
            k = updateAnchoredOperation (txnOps ! i) (of_nat i) t \<and>
            (\<forall>j < i. ao_UniqueSuffix (txnOps ! j) \<noteq> ao_UniqueSuffix (txnOps ! i)))) \<and>
      fst (processTxnOperations P txnOps t) =
        map_option (aggregate ''failed to store operation from anchor string'')
          (Put opStore kept)"
proof (intro exI [of _ "deduplicate {} 0 txnOps t"] conjI allI)
  show "snd (processTxnOperations P txnOps t) =
      [PutCalled (txn_Namespace t) (deduplicate {} 0 txnOps t)]"
    using assms by (simp add: processTxnOperations_def Let_def split: option.splits)
  show "distinct (map ao_UniqueSuffix (deduplicate {} 0 txnOps t))"
    by (rule deduplicate_distinct)
  show "set (map ao_UniqueSuffix (deduplicate {} 0 txnOps t)) = set (map ao_UniqueSuffix txnOps)"
    unfolding deduplicate_suffixes by simp
  show "fst (processTxnOperations P txnOps t) =
      map_option (aggregate ''failed to store operation from anchor string'')
        (Put opStore (deduplicate {} 0 txnOps t))"
    using assms by (simp add: processTxnOperations_def Let_def split: option.splits)
next
  fix k
  show "k \<in> set (deduplicate {} 0 txnOps t) \<longleftrightarrow>
         (\<exists>i < length txnOps.
            k = updateAnchoredOperation (txnOps ! i) (of_nat i) t \<and>
            (\<forall>j < i. ao_UniqueSuffix (txnOps ! j) \<noteq> ao_UniqueSuffix (txnOps ! i)))"
    unfolding deduplicate_first first_kept_def by simp
qed

theorem C2_deduplicates_keeping_first_witness:
  "ForNamespace mock_providers (txn_Namespace (test_txn ''1.anchorAddress'')) = Inr mock_store \<and>
   (\<exists>kept.
      snd (processTxnOperations mock_providers [abc_operation, abc_operation]
             (test_txn ''1.anchorAddress'')) = [PutCalled ''did:sidetree'' kept] \<and>
      kept = [abc_operation\<lparr>ao_TransactionTime := 20, ao_TransactionNumber := 2\<rparr>] \<and>
      distinct (map ao_UniqueSuffix kept) \<and>
      fst (processTxnOperations mock_providers [abc_operation, abc_operation]
             (test_txn ''1.anchorAddress'')) = None)"
proof -
  have store: "ForNamespace mock_providers (txn_Namespace (test_txn ''1.anchorAddress'')) =
      Inr mock_store"
    by (simp add: mock_providers_def)
  from C2_deduplicates_keeping_first [OF store, of "[abc_operation, abc_operation]"]
  obtain kept where
    "snd (processTxnOperations mock_providers [abc_operation, abc_operation]
        (test_txn ''1.anchorAddress'')) =
      [PutCalled (txn_Namespace (test_txn ''1.anchorAddress'')) kept]"
    and "distinct (map ao_UniqueSuffix kept)"
    by blast
  then show ?thesis
    using store by (simp add: mock_process_two)
qed

text \<open>
  C4. If fetching the operations of a transaction fails, \<open>Process\<close> returns the single
  aggregate error "failed to retrieve operations for anchor string", \<open>put\<close> is not
  invoked for the transaction, and the consumer records the failure and goes on: the
  rest of the message and the following messages are processed as they would be without
  the failed transaction.
\<close>

theorem C4_fetch_error_rejects_transaction:
  assumes "GetTxnOperations P t = Inl err"
  shows
    "Process P t =
       (Some (aggregate ''failed to retrieve operations for anchor string'' err), []) \<and>
     Contains (message (aggregate ''failed to retrieve operations for anchor string'' err))
       ''failed to retrieve operations for anchor string'' \<and>
     (\<forall>ns ops. PutCalled ns ops \<notin> set (snd (Process P t))) \<and>
     process_txns P (t # txns) =
       TxnFailed (txn_AnchorString t)
         (aggregate ''failed to retrieve operations for anchor string'' err)
       # process_txns P txns \<and>
     listen P ((t # txns) # messages) =
       TxnFailed (txn_AnchorString t)
         (aggregate ''failed to retrieve operations for anchor string'' err)
       # process_txns P txns @ listen P messages"
proof -
  have p: "Process P t =
      (Some (aggregate ''failed to retrieve operations for anchor string'' err), [])"
    using assms by (simp add: Process_def)
  show ?thesis
    by (simp add: p aggregate_Contains)
qed

theorem C4_fetch_error_rejects_transaction_witness:
  "GetTxnOperations read_error_providers (test_txn ''1.address'') = Inl (Err ''read error'') \<and>
   Process read_error_providers (test_txn ''1.address'') =
     (Some (Err ''failed to retrieve operations for anchor string: read error''), []) \<and>
   listen read_error_providers [[test_txn ''1.address''], [test_txn ''1.anchorAddress'']] =
     [TxnFailed ''1.address''
        (Err ''failed to retrieve operations for anchor string: read error''),
      PutCalled ''did:sidetree''
        [abc_operation\<lparr>ao_TransactionTime := 20, ao_TransactionNumber := 2\<rparr>]]"
proof -
  have fetch: "GetTxnOperations read_error_providers (test_txn ''1.address'') =
      Inl (Err ''read error'')"
    by (simp add: read_error_providers_def test_txn_def)
  have agg: "aggregate ''failed to retrieve operations for anchor string'' (Err ''read error'') =
      Err ''failed to retrieve operations for anchor string: read error''"
    by (simp add: aggregate_def)
  have anchor: "txn_AnchorString (test_txn ''1.address'') = ''1.address''"
    by (simp add: test_txn_def)
  have next_txn: "Process read_error_providers (test_txn ''1.anchorAddress'') =
      (None, [PutCalled ''did:sidetree''
                [abc_operation\<lparr>ao_TransactionTime := 20, ao_TransactionNumber := 2\<rparr>]])"
    by (simp add: Process_def read_error_providers_def mock_process_one)
      (simp add: test_txn_def)
  show ?thesis
    using C4_fetch_error_rejects_transaction [OF fetch, of "[]"
        "[[test_txn ''1.anchorAddress'']]"]
    by (simp add: fetch agg anchor next_txn)
qed


end
